theory Spec2Isabelle
  imports Main "HOL-Library.Word"
begin

section \<open>Values of the JavaScript runtime\<close>

text \<open>
  A \<open>Uint8Array\<close> is a list of bytes. A JavaScript string is modelled by
  \<^typ>\<open>string\<close>: one \<^typ>\<open>char\<close> per code unit, for code units up to 255. That covers
  every "binary string" built by \<open>String.fromCharCode\<close> from bytes and every string
  the modules build themselves (hexadecimal digits, storage keys, method names).
  Numbers are integers (\<^typ>\<open>int\<close>): the clock, counters and configured limits.
\<close>

type_synonym byte = "8 word"

definition fromCharCode :: "byte \<Rightarrow> char" where
  "fromCharCode b = char_of (unat b)"

definition charCodeAt :: "string \<Rightarrow> nat \<Rightarrow> nat" where
  "charCodeAt s i = of_char (s ! i)"

subsection \<open>btoa and atob\<close>

text \<open>
  \<open>btoa\<close> is the base64 encoding of RFC 4648, section 4, with padding: every three
  bytes give four six-bit groups, a rest of one byte gives two groups and \<open>==\<close>,
  a rest of two bytes gives three groups and \<open>=\<close>.
\<close>

definition b64char :: "nat \<Rightarrow> char" where
  "b64char n =
     (if n < 26 then char_of (65 + n)
      else if n < 52 then char_of (71 + n)
      else if n < 62 then char_of (n - 4)
      else if n = 62 then CHR ''+''
      else CHR ''/'')"

fun b64_sextets :: "nat list \<Rightarrow> nat list" where
  "b64_sextets [] = []"
| "b64_sextets [a] = [a div 4, (a mod 4) * 16]"
| "b64_sextets [a, b] = [a div 4, (a mod 4) * 16 + b div 16, (b mod 16) * 4]"
| "b64_sextets (a # b # c # r) =
     a div 4 # ((a mod 4) * 16 + b div 16) # ((b mod 16) * 4 + c div 64) # (c mod 64)
       # b64_sextets r"

definition btoa :: "string \<Rightarrow> string" where
  "btoa s = map b64char (b64_sextets (map of_char s))
              @ replicate ((3 - length s mod 3) mod 3) (CHR ''='')"

text \<open>
  \<open>atob\<close> is the forgiving base64 decoding of the WHATWG Infra standard: ASCII
  whitespace is dropped; when the length is a multiple of four, one or two trailing
  \<open>=\<close> are dropped; a length of 1 modulo 4 and any character outside the alphabet
  fail (\<open>InvalidCharacterError\<close>, here \<open>None\<close>); a rest of two groups gives one byte and
  a rest of three groups gives two bytes, the surplus low bits being discarded.
\<close>

definition b64index :: "char \<Rightarrow> nat option" where
  "b64index c =
     (let k = (of_char c :: nat) in
      if 65 \<le> k \<and> k \<le> 90 then Some (k - 65)
      else if 97 \<le> k \<and> k \<le> 122 then Some (k - 71)
      else if 48 \<le> k \<and> k \<le> 57 then Some (k + 4)
      else if k = 43 then Some 62
      else if k = 47 then Some 63
      else None)"

definition is_ascii_whitespace :: "char \<Rightarrow> bool" where
  "is_ascii_whitespace c = ((of_char c :: nat) \<in> {9, 10, 12, 13, 32})"

definition strip_padding :: "string \<Rightarrow> string" where
  "strip_padding d =
     (if 2 \<le> length d \<and> last d = CHR ''='' \<and> last (butlast d) = CHR ''=''
        then butlast (butlast d)
      else if d \<noteq> [] \<and> last d = CHR ''='' then butlast d
      else d)"

fun b64_octets :: "nat list \<Rightarrow> nat list" where
  "b64_octets (s1 # s2 # s3 # s4 # r) =
     (s1 * 4 + s2 div 16) # ((s2 mod 16) * 16 + s3 div 4) # ((s3 mod 4) * 64 + s4)
       # b64_octets r"
| "b64_octets [s1, s2, s3] = [s1 * 4 + s2 div 16, (s2 mod 16) * 16 + s3 div 4]"
| "b64_octets [s1, s2] = [s1 * 4 + s2 div 16]"
| "b64_octets [s1] = []"
| "b64_octets [] = []"

definition atob :: "string \<Rightarrow> string option" where
  "atob s =
     (let d0 = filter (\<lambda>c. \<not> is_ascii_whitespace c) s;
          d = (if length d0 mod 4 = 0 then strip_padding d0 else d0)
      in if length d mod 4 = 1 then None
         else if list_ex (\<lambda>c. b64index c = None) d then None
         else Some (map char_of (b64_octets (map (the \<circ> b64index) d))))"

subsection \<open>Other library functions the modules call\<close>

text \<open>
  \<open>TextEncoder.encode\<close>: UTF-8. A code unit below 128 is one byte, a code unit from
  128 to 255 is the two bytes \<open>110xxxxx 10xxxxxx\<close>.
\<close>

definition TextEncoder_encode :: "string \<Rightarrow> byte list" where
  "TextEncoder_encode s =
     concat (map (\<lambda>c. let k = (of_char c :: nat) in
                         if k < 128 then [of_nat k]
                         else [of_nat (192 + k div 64), of_nat (128 + k mod 64)]) s)"

text \<open>\<open>byte.toString(16)\<close> for a byte, and \<open>padStart(2, '0')\<close>.\<close>

definition hexdigit :: "nat \<Rightarrow> char" where
  "hexdigit n = (if n < 10 then char_of (48 + n) else char_of (87 + n))"

definition toString16 :: "byte \<Rightarrow> string" where
  "toString16 b =
     (let n = unat b in
      if n < 16 then [hexdigit n] else [hexdigit (n div 16), hexdigit (n mod 16)])"

definition padStart :: "nat \<Rightarrow> char \<Rightarrow> string \<Rightarrow> string" where
  "padStart n c s = replicate (n - length s) c @ s"

text \<open>\<open>s.replace(/x/g, 'y')\<close> and \<open>s.replace(/x/g, '')\<close> for a single character.\<close>

definition replace_all :: "char \<Rightarrow> char \<Rightarrow> string \<Rightarrow> string" where
  "replace_all x y s = map (\<lambda>c. if c = x then y else c) s"

definition remove_all :: "char \<Rightarrow> string \<Rightarrow> string" where
  "remove_all x s = filter (\<lambda>c. c \<noteq> x) s"

text \<open>\<open>a || b\<close> on an optional number or string: 0, the empty string and
  \<open>undefined\<close> are falsy.\<close>

definition or_int :: "int option \<Rightarrow> int \<Rightarrow> int" where
  "or_int a d = (case a of None \<Rightarrow> d | Some v \<Rightarrow> if v = 0 then d else v)"

definition or_string :: "string option \<Rightarrow> string \<Rightarrow> string" where
  "or_string a d = (case a of None \<Rightarrow> d | Some v \<Rightarrow> if v = [] then d else v)"

definition or_bool :: "bool option \<Rightarrow> bool \<Rightarrow> bool" where
  "or_bool a d = (case a of None \<Rightarrow> d | Some v \<Rightarrow> if v then v else d)"

definition truthy :: "string option \<Rightarrow> bool" where
  "truthy a = (case a of None \<Rightarrow> False | Some v \<Rightarrow> v \<noteq> [])"

text \<open>A string in a template literal: \<open>null\<close> prints as \<open>null\<close>.\<close>

definition template :: "string option \<Rightarrow> string" where
  "template a = (case a of None \<Rightarrow> ''null'' | Some v \<Rightarrow> v)"

text \<open>Comparison of a number with a property that may be \<open>undefined\<close>: false then.\<close>

definition js_less :: "int \<Rightarrow> int option \<Rightarrow> bool" where
  "js_less a b = (case b of None \<Rightarrow> False | Some v \<Rightarrow> a < v)"

definition js_greater :: "int \<Rightarrow> int option \<Rightarrow> bool" where
  "js_greater a b = (case b of None \<Rightarrow> False | Some v \<Rightarrow> a > v)"

subsection \<open>Exceptions\<close>

text \<open>
  The modules throw \<open>new Error(message)\<close>; the platform throws DOM exceptions, given
  by name, a \<open>TypeError\<close> when a property of \<open>null\<close> is read and a
  \<open>SyntaxError\<close> when \<open>JSON.parse\<close> rejects a text.
\<close>

datatype exn = Error string | DOMException string | TypeError | SyntaxError

section \<open>The browser\<close>

text \<open>
  \<open>localStorage\<close> maps keys to texts. The modules store three kinds of text: plain
  strings (the OAuth2 state, code verifier and provider name), the JSON text of a
  session object and the JSON text of the credential array. A JSON text is kept as the
  value it denotes: \<open>JSON.parse(JSON.stringify(v))\<close> is \<open>v\<close> for these two shapes.
  The modules use distinct keys, so each key is read back by the module that wrote
  it. Where a reader that calls \<open>JSON.parse\<close> meets a text of another kind, the model
  takes \<open>JSON.parse\<close> to reject it; where a reader that wants a plain string meets
  JSON text, the model takes that text to differ from every plain string.
\<close>

record user =
  u_username :: "string option"
  u_displayName :: "string option"

record session_data =
  s_user :: user
  loginTime :: int
  expiry :: int

record credential_data =
  cd_id :: string
  cd_rawId :: string
  cd_type :: string
  cd_clientDataJSON :: string
  cd_attestationObject :: string

record stored_credential =
  sc_username :: string
  sc_credential :: credential_data
  sc_createdAt :: int

datatype item =
    Plain string
  | SessionJson session_data
  | CredentialsJson "stored_credential list"

text \<open>
  What the platform is asked to do is recorded in \<open>calls\<close>, in order, so that
  "this was not called" can be stated. The record is not read by the program.
\<close>

record request_options =
  ro_challenge :: "byte list"
  ro_rpId :: string
  ro_allowCredentials :: "byte list list"
  ro_timeout :: int
  ro_userVerification :: string

record creation_options =
  co_challenge :: "byte list"
  co_rp_name :: string
  co_rp_id :: string
  co_user_id :: "byte list"
  co_user_name :: string
  co_user_displayName :: string
  co_pubKeyCredParams :: "(int \<times> string) list"
  co_authenticatorAttachment :: string
  co_requireResidentKey :: bool
  co_userVerification :: string
  co_timeout :: int
  co_attestation :: string

datatype call =
    GetRandomValues nat
  | Digest "byte list"
  | CredentialsCreate creation_options
  | CredentialsGet request_options
  | ExchangeCodeForToken "string option"
  | GetUserInfo string

record browser =
  localStorage :: "string \<rightharpoonup> item"
  href :: string
  entropy :: "nat \<Rightarrow> byte"
  calls :: "call list"

definition getItem :: "browser \<Rightarrow> string \<Rightarrow> item option" where
  "getItem b key = localStorage b key"

definition setItem :: "string \<Rightarrow> item \<Rightarrow> browser \<Rightarrow> browser" where
  "setItem key v b = b\<lparr>localStorage := (localStorage b)(key \<mapsto> v)\<rparr>"

definition removeItem :: "string \<Rightarrow> browser \<Rightarrow> browser" where
  "removeItem key b = b\<lparr>localStorage := (localStorage b)(key := None)\<rparr>"

text \<open>
  \<open>crypto.getRandomValues(new Uint8Array(n))\<close> takes the next \<open>n\<close> bytes of the
  browser's entropy.
\<close>

definition getRandomValues :: "nat \<Rightarrow> browser \<Rightarrow> byte list \<times> browser" where
  "getRandomValues n b =
     (map (entropy b) [0..<n],
      b\<lparr>entropy := (\<lambda>i. entropy b (i + n)), calls := calls b @ [GetRandomValues n]\<rparr>)"

text \<open>
  The parts of the platform that answer: the capability probe, SHA-256
  (\<open>crypto.subtle.digest\<close>) and the two WebAuthn calls, which return a credential,
  return \<open>null\<close> or throw.
\<close>

record public_key_credential =
  pk_id :: string
  pk_rawId :: "byte list"
  pk_type :: string
  pk_clientDataJSON :: "byte list"
  pk_attestationObject :: "byte list"

record assertion =
  as_id :: string
  as_rawId :: "byte list"
  as_type :: string
  as_authenticatorData :: "byte list"
  as_clientDataJSON :: "byte list"
  as_signature :: "byte list"
  as_userHandle :: "byte list option"

record platform =
  supported :: bool
  sha256 :: "byte list \<Rightarrow> byte list"
  credentials_create :: "creation_options \<Rightarrow> exn + public_key_credential option"
  credentials_get :: "request_options \<Rightarrow> exn + assertion option"

section \<open>WebAuthnAuth\<close>

subsection \<open>Transport encoding of binary fields\<close>

text \<open>
  \<open>arrayBufferToBase64\<close>: the loop appends \<open>String.fromCharCode(bytes[i])\<close> to
  \<open>binary\<close> for \<open>i\<close> from 0 to \<open>byteLength - 1\<close>, then \<open>btoa(binary)\<close>.
\<close>

definition arrayBufferToBase64 :: "byte list \<Rightarrow> string" where
  "arrayBufferToBase64 buffer =
     (let bytes = buffer;
          binary = foldl (\<lambda>binary i. binary @ [fromCharCode (bytes ! i)]) [] [0..<length bytes]
      in btoa binary)"

text \<open>
  \<open>base64ToArrayBuffer\<close>: \<open>atob\<close> may throw; otherwise a zero-filled
  \<open>Uint8Array(binary.length)\<close> receives \<open>binary.charCodeAt(i)\<close> at every index.
\<close>

definition base64ToArrayBuffer :: "string \<Rightarrow> exn + byte list" where
  "base64ToArrayBuffer base64 =
     (case atob base64 of
        None \<Rightarrow> Inl (DOMException ''InvalidCharacterError'')
      | Some binary \<Rightarrow>
          Inr (foldl (\<lambda>bytes i. bytes[i := of_nat (charCodeAt binary i)])
                 (replicate (length binary) 0) [0..<length binary]))"

subsection \<open>Challenges and user handles\<close>

definition generateChallenge :: "browser \<Rightarrow> byte list \<times> browser" where
  "generateChallenge b = getRandomValues 32 b"

definition generateUserId :: "string \<Rightarrow> byte list" where
  "generateUserId username = TextEncoder_encode username"

subsection \<open>Stored credentials\<close>

text \<open>\<open>JSON.parse(localStorage.getItem(key) || '[]')\<close>.\<close>

definition parseCredentials :: "item option \<Rightarrow> exn + stored_credential list" where
  "parseCredentials t =
     (case t of
        None \<Rightarrow> Inr []
      | Some (CredentialsJson stored) \<Rightarrow> Inr stored
      | Some (Plain s) \<Rightarrow> if s = [] then Inr [] else Inl SyntaxError
      | Some (SessionJson d) \<Rightarrow> Inl SyntaxError)"

definition getStoredCredentials :: "browser \<Rightarrow> exn + stored_credential list" where
  "getStoredCredentials b = parseCredentials (getItem b ''webauthn_credentials'')"

definition storeCredential ::
  "string \<Rightarrow> credential_data \<Rightarrow> int \<Rightarrow> browser \<Rightarrow> exn + browser" where
  "storeCredential username credential now b =
     (let key = ''webauthn_credentials'' in
      case parseCredentials (getItem b key) of
        Inl e \<Rightarrow> Inl e
      | Inr stored \<Rightarrow>
          Inr (setItem key
                 (CredentialsJson
                    (stored @ [\<lparr>sc_username = username, sc_credential = credential,
                                sc_createdAt = now\<rparr>])) b))"

subsection \<open>register\<close>

record webauthn_config =
  authenticatorAttachment :: "string option"
  requireResidentKey :: "bool option"
  userVerification :: "string option"
  timeout :: "int option"
  attestation :: "string option"

record webauthn_auth =
  rpName :: string
  rpId :: string
  wa_config :: "webauthn_config option"

text \<open>\<open>this.config?.field || default\<close>.\<close>

definition config_string ::
  "webauthn_auth \<Rightarrow> (webauthn_config \<Rightarrow> string option) \<Rightarrow> string \<Rightarrow> string" where
  "config_string w field d = or_string (Option.bind (wa_config w) field) d"

definition config_int ::
  "webauthn_auth \<Rightarrow> (webauthn_config \<Rightarrow> int option) \<Rightarrow> int \<Rightarrow> int" where
  "config_int w field d = or_int (Option.bind (wa_config w) field) d"

definition config_bool ::
  "webauthn_auth \<Rightarrow> (webauthn_config \<Rightarrow> bool option) \<Rightarrow> bool \<Rightarrow> bool" where
  "config_bool w field d = or_bool (Option.bind (wa_config w) field) d"

definition isSupported :: "platform \<Rightarrow> bool" where
  "isSupported P = supported P"

definition publicKeyCredentialCreationOptions ::
  "webauthn_auth \<Rightarrow> byte list \<Rightarrow> byte list \<Rightarrow> string \<Rightarrow> creation_options" where
  "publicKeyCredentialCreationOptions w challenge userId username =
     \<lparr>co_challenge = challenge,
      co_rp_name = rpName w,
      co_rp_id = rpId w,
      co_user_id = userId,
      co_user_name = username,
      co_user_displayName = username,
      co_pubKeyCredParams = [(-7, ''public-key''), (-257, ''public-key'')],
      co_authenticatorAttachment = config_string w authenticatorAttachment ''platform'',
      co_requireResidentKey = config_bool w requireResidentKey False,
      co_userVerification = config_string w userVerification ''preferred'',
      co_timeout = config_int w timeout 60000,
      co_attestation = config_string w attestation ''none''\<rparr>"

text \<open>
  \<open>register\<close>: the \<open>catch\<close> block logs and rethrows, so every exception of the
  \<open>try\<close> block is the result; what was written before it stays written.
\<close>

definition register ::
  "webauthn_auth \<Rightarrow> platform \<Rightarrow> int \<Rightarrow> string \<Rightarrow> browser \<Rightarrow> (exn + credential_data) \<times> browser" where
  "register w P now username b =
     (if \<not> isSupported P then (Inl (Error ''WebAuthn is not supported''), b)
      else
        let (challenge, b1) = generateChallenge b;
            userId = generateUserId username;
            options = publicKeyCredentialCreationOptions w challenge userId username;
            b2 = b1\<lparr>calls := calls b1 @ [CredentialsCreate options]\<rparr>
        in case credentials_create P options of
             Inl e \<Rightarrow> (Inl e, b2)
           | Inr None \<Rightarrow> (Inl TypeError, b2)
           | Inr (Some credential) \<Rightarrow>
               let credentialData =
                     \<lparr>cd_id = pk_id credential,
                      cd_rawId = arrayBufferToBase64 (pk_rawId credential),
                      cd_type = pk_type credential,
                      cd_clientDataJSON = arrayBufferToBase64 (pk_clientDataJSON credential),
                      cd_attestationObject =
                        arrayBufferToBase64 (pk_attestationObject credential)\<rparr>
               in (case storeCredential username credentialData now b2 of
                     Inl e \<Rightarrow> (Inl e, b2)
                   | Inr b3 \<Rightarrow> (Inr credentialData, b3)))"

subsection \<open>authenticate\<close>

record assertion_data =
  ad_id :: string
  ad_rawId :: string
  ad_type :: string
  ad_authenticatorData :: string
  ad_clientDataJSON :: string
  ad_signature :: string
  ad_userHandle :: "string option"

record webauthn_result =
  wr_success :: bool
  wr_credential :: assertion_data
  wr_username :: string

text \<open>
  \<open>storedCredentials.map(cred => ({id: this.base64ToArrayBuffer(cred.rawId), ...}))\<close>:
  the first \<open>rawId\<close> that \<open>atob\<close> rejects throws.
\<close>

fun allowCredentials :: "stored_credential list \<Rightarrow> exn + byte list list" where
  "allowCredentials [] = Inr []"
| "allowCredentials (cred # creds) =
     (case base64ToArrayBuffer (cd_rawId (sc_credential cred)) of
        Inl e \<Rightarrow> Inl e
      | Inr i \<Rightarrow>
          (case allowCredentials creds of Inl e \<Rightarrow> Inl e | Inr is \<Rightarrow> Inr (i # is)))"

definition WebAuthn_authenticate ::
  "webauthn_auth \<Rightarrow> platform \<Rightarrow> browser \<Rightarrow> (exn + webauthn_result) \<times> browser" where
  "WebAuthn_authenticate w P b =
     (if \<not> isSupported P then (Inl (Error ''WebAuthn is not supported''), b)
      else
        case getStoredCredentials b of
          Inl e \<Rightarrow> (Inl e, b)
        | Inr storedCredentials \<Rightarrow>
            if length storedCredentials = 0
            then (Inl (Error ''No credentials registered. Please register first.''), b)
            else
              let (challenge, b1) = generateChallenge b
              in (case allowCredentials storedCredentials of
                   Inl e \<Rightarrow> (Inl e, b1)
                 | Inr ids \<Rightarrow>
                     let options =
                           \<lparr>ro_challenge = challenge,
                            ro_rpId = rpId w,
                            ro_allowCredentials = ids,
                            ro_timeout = config_int w timeout 60000,
                            ro_userVerification =
                              config_string w userVerification ''preferred''\<rparr>;
                         b2 = b1\<lparr>calls := calls b1 @ [CredentialsGet options]\<rparr>
                     in (case credentials_get P options of
                          Inl e \<Rightarrow> (Inl e, b2)
                        | Inr None \<Rightarrow> (Inl TypeError, b2)
                        | Inr (Some assertion) \<Rightarrow>
                            let result =
                                  \<lparr>ad_id = as_id assertion,
                                   ad_rawId = arrayBufferToBase64 (as_rawId assertion),
                                   ad_type = as_type assertion,
                                   ad_authenticatorData =
                                     arrayBufferToBase64 (as_authenticatorData assertion),
                                   ad_clientDataJSON =
                                     arrayBufferToBase64 (as_clientDataJSON assertion),
                                   ad_signature = arrayBufferToBase64 (as_signature assertion),
                                   ad_userHandle =
                                     map_option arrayBufferToBase64 (as_userHandle assertion)\<rparr>;
                                matchedCredential =
                                  find (\<lambda>cred. cd_id (sc_credential cred) = as_id assertion)
                                    storedCredentials
                            in (Inr \<lparr>wr_success = True,
                                     wr_credential = result,
                                     wr_username =
                                       or_string (map_option sc_username matchedCredential)
                                         ''unknown''\<rparr>, b2))))"

section \<open>OAuth2Auth\<close>

record provider =
  p_name :: string
  clientId :: string
  authUrl :: string
  tokenUrl :: string
  scope :: string
  redirectUri :: string
  responseMode :: "string option"
  icon :: string

record oauth2_auth =
  providers :: "string \<rightharpoonup> provider"
  currentProvider :: "string option"
  callbackUrl :: string

subsection \<open>URLSearchParams\<close>

text \<open>
  \<open>URLSearchParams.toString\<close>: the \<open>application/x-www-form-urlencoded\<close>
  serialisation of the UTF-8 bytes of every name and value.
\<close>

definition HEXDIGIT :: "nat \<Rightarrow> char" where
  "HEXDIGIT n = (if n < 10 then char_of (48 + n) else char_of (55 + n))"

definition urlencode_byte :: "byte \<Rightarrow> string" where
  "urlencode_byte b =
     (let k = unat b in
      if k = 32 then ''+''
      else if (48 \<le> k \<and> k \<le> 57) \<or> (65 \<le> k \<and> k \<le> 90) \<or> (97 \<le> k \<and> k \<le> 122)
              \<or> k = 42 \<or> k = 45 \<or> k = 46 \<or> k = 95
        then [char_of k]
      else [CHR ''%'', HEXDIGIT (k div 16), HEXDIGIT (k mod 16)])"

definition urlencode :: "string \<Rightarrow> string" where
  "urlencode s = concat (map urlencode_byte (TextEncoder_encode s))"

fun URLSearchParams_toString :: "(string \<times> string) list \<Rightarrow> string" where
  "URLSearchParams_toString [] = []"
| "URLSearchParams_toString [(k, v)] = urlencode k @ ''='' @ urlencode v"
| "URLSearchParams_toString ((k, v) # kvs) =
     urlencode k @ ''='' @ urlencode v @ ''&'' @ URLSearchParams_toString kvs"

definition buildAuthUrl :: "provider \<Rightarrow> string \<Rightarrow> string \<Rightarrow> string" where
  "buildAuthUrl provider state codeChallenge =
     (let params =
            [(''client_id'', clientId provider),
             (''redirect_uri'', redirectUri provider),
             (''response_type'', ''code''),
             (''scope'', scope provider),
             (''state'', state),
             (''code_challenge'', codeChallenge),
             (''code_challenge_method'', ''S256'')];
          params =
            (case responseMode provider of
               None \<Rightarrow> params
             | Some mode \<Rightarrow>
                 if truthy (Some mode) then params @ [(''response_mode'', mode)] else params)
      in authUrl provider @ ''?'' @ URLSearchParams_toString params)"

subsection \<open>State and PKCE\<close>

text \<open>
  \<open>Array.from(array, byte => byte.toString(16).padStart(2, '0')).join('')\<close>.
\<close>

definition hex_of_bytes :: "byte list \<Rightarrow> string" where
  "hex_of_bytes array = concat (map (\<lambda>byte. padStart 2 (CHR ''0'') (toString16 byte)) array)"

definition generateState :: "browser \<Rightarrow> string \<times> browser" where
  "generateState b = (let (array, b1) = getRandomValues 32 b in (hex_of_bytes array, b1))"

record pkce =
  codeVerifier :: string
  codeChallenge :: string

definition generatePKCE :: "platform \<Rightarrow> browser \<Rightarrow> pkce \<times> browser" where
  "generatePKCE P b =
     (let (array, b1) = getRandomValues 32 b;
          codeVerifier = hex_of_bytes array;
          data = TextEncoder_encode codeVerifier;
          hash = sha256 P data;
          b2 = b1\<lparr>calls := calls b1 @ [Digest data]\<rparr>;
          codeChallenge =
            remove_all (CHR ''='')
              (replace_all (CHR ''/'') (CHR ''_'')
                 (replace_all (CHR ''+'') (CHR ''-'') (btoa (map fromCharCode hash))))
      in (\<lparr>codeVerifier = codeVerifier, codeChallenge = codeChallenge\<rparr>, b2))"

definition storeState :: "string \<Rightarrow> browser \<Rightarrow> browser" where
  "storeState state b = setItem ''oauth2_state'' (Plain state) b"

definition getStoredState :: "browser \<Rightarrow> item option" where
  "getStoredState b = getItem b ''oauth2_state''"

definition clearStoredState :: "browser \<Rightarrow> browser" where
  "clearStoredState b = removeItem ''oauth2_state'' b"

definition storeCodeVerifier :: "string \<Rightarrow> browser \<Rightarrow> browser" where
  "storeCodeVerifier verifier b = setItem ''oauth2_code_verifier'' (Plain verifier) b"

definition clearCodeVerifier :: "browser \<Rightarrow> browser" where
  "clearCodeVerifier b = removeItem ''oauth2_code_verifier'' b"

subsection \<open>authenticate\<close>

text \<open>
  Starting the flow. Assigning \<open>window.location.href\<close> starts the navigation; the
  function then returns.
\<close>

definition OAuth2_authenticate ::
  "oauth2_auth \<Rightarrow> platform \<Rightarrow> string \<Rightarrow> browser \<Rightarrow> (exn + unit) \<times> oauth2_auth \<times> browser" where
  "OAuth2_authenticate o2 P providerName b =
     (case providers o2 providerName of
        None \<Rightarrow> (Inl (Error (''Provider '' @ providerName @ '' not found'')), o2, b)
      | Some provider \<Rightarrow>
          let o2' = o2\<lparr>currentProvider := Some providerName\<rparr>;
              (state, b1) = generateState b;
              b2 = storeState state b1;
              (pk, b3) = generatePKCE P b2;
              b4 = storeCodeVerifier (codeVerifier pk) b3;
              authUrl = buildAuthUrl provider state (codeChallenge pk);
              b5 = setItem ''oauth2_provider'' (Plain providerName) b4;
              b6 = b5\<lparr>href := authUrl\<rparr>
          in (Inr (), o2', b6))"

subsection \<open>handleCallback\<close>

text \<open>\<open>String(n)\<close> for an integer, in decimal.\<close>

fun decimal :: "nat \<Rightarrow> string" where
  "decimal n =
     (if n < 10 then [char_of (48 + n)] else decimal (n div 10) @ [char_of (48 + n mod 10)])"

declare decimal.simps [simp del]

definition Number_toString :: "int \<Rightarrow> string" where
  "Number_toString n = (if n < 0 then ''-'' @ decimal (nat (- n)) else decimal (nat n))"

record token_data =
  access_token :: string
  token_type :: string
  expires_in :: int
  td_scope :: string

record user_info =
  ui_id :: string
  ui_email :: string
  ui_name :: string
  ui_provider :: string
  ui_verified :: bool

record callback_result =
  cb_success :: bool
  cb_provider :: string
  cb_user :: user_info
  cb_tokens :: token_data

definition exchangeCodeForToken ::
  "provider \<Rightarrow> string option \<Rightarrow> int \<Rightarrow> browser \<Rightarrow> token_data \<times> browser" where
  "exchangeCodeForToken provider code now b =
     (\<lparr>access_token = ''demo_access_token_'' @ Number_toString now,
       token_type = ''Bearer'',
       expires_in = 3600,
       td_scope = scope provider\<rparr>,
      b\<lparr>calls := calls b @ [ExchangeCodeForToken code]\<rparr>)"

definition getUserInfo :: "string \<Rightarrow> string \<Rightarrow> browser \<Rightarrow> user_info \<times> browser" where
  "getUserInfo providerName accessToken b =
     (\<lparr>ui_id = ''demo_user_id'',
       ui_email = ''user@example.com'',
       ui_name = ''Demo User'',
       ui_provider = providerName,
       ui_verified = True\<rparr>,
      b\<lparr>calls := calls b @ [GetUserInfo providerName]\<rparr>)"

text \<open>
  The key a stored text gives to \<open>this.providers.get\<close>: a plain text is the name
  looked up; JSON text is the name of no provider.
\<close>

definition stored_name :: "item option \<Rightarrow> string option" where
  "stored_name t = (case t of Some (Plain s) \<Rightarrow> Some s | _ \<Rightarrow> None)"

text \<open>
  \<open>handleCallback\<close> reads \<open>code\<close>, \<open>state\<close>, \<open>error\<close> and
  \<open>error_description\<close> from the query string (\<open>params.get\<close>: \<open>null\<close> when absent).
  \<open>state !== storedState\<close> compares the parameter with the stored text.
\<close>

definition handleCallback ::
  "oauth2_auth \<Rightarrow> (string \<rightharpoonup> string) \<Rightarrow> int \<Rightarrow> browser \<Rightarrow> (exn + callback_result) \<times> browser" where
  "handleCallback o2 params now b =
     (let code = params ''code'';
          state = params ''state'';
          error = params ''error''
      in case (if truthy error then error else None) of
           Some err \<Rightarrow>
             (Inl (Error (''OAuth2 error: '' @ err @ '' - ''
                            @ template (params ''error_description''))), b)
         | None \<Rightarrow>
             let storedState = getStoredState b
             in if map_option Plain state \<noteq> storedState
                then (Inl (Error ''Invalid state parameter - possible CSRF attack''), b)
                else
                  let providerName = stored_name (getItem b ''oauth2_provider'');
                      provider = Option.bind providerName (providers o2)
                  in (case (providerName, provider) of
                        (Some providerName, Some provider) \<Rightarrow>
                          let (tokenData, b1) = exchangeCodeForToken provider code now b;
                              (userInfo, b2) =
                                getUserInfo providerName (access_token tokenData) b1;
                              b3 = clearStoredState b2;
                              b4 = clearCodeVerifier b3;
                              b5 = removeItem ''oauth2_provider'' b4
                          in (Inr \<lparr>cb_success = True,
                                   cb_provider = providerName,
                                   cb_user = userInfo,
                                   cb_tokens = tokenData\<rparr>, b5)
                      | _ \<Rightarrow> (Inl (Error ''Provider not found''), b)))"

section \<open>AuthManager\<close>

record rate_limit_config =
  rl_enabled :: bool
  rl_maxAttempts :: "int option"
  rl_windowMs :: "int option"

record credentials =
  cr_username :: "string option"
  cr_password :: "string option"

text \<open>
  The parts of \<open>authConfig.authentication\<close> that the functions below read:
  \<open>providers.local?.config?.tokenExpiry\<close>, \<open>demo?.credentials\<close> and
  \<open>security?.rateLimit\<close>.
\<close>

record auth_config =
  tokenExpiry :: "int option"
  demo_credentials :: "credentials option"
  rateLimit :: "rate_limit_config option"

record attempts =
  count :: int
  timestamp :: int

record auth_manager =
  config :: auth_config
  webauthn :: "webauthn_auth option"
  oauth2 :: "oauth2_auth option"
  sessionKey :: string
  rateLimiter :: "string \<rightharpoonup> attempts"
  maxAttempts :: "int option"
  windowMs :: "int option"

record auth_result =
  ar_success :: bool
  ar_method :: "string option"
  ar_user :: "user option"

subsection \<open>Rate limiting\<close>

text \<open>\<open>this.config.security?.rateLimit?.enabled\<close>.\<close>

definition rateLimit_enabled :: "auth_manager \<Rightarrow> bool" where
  "rateLimit_enabled m = (case rateLimit (config m) of None \<Rightarrow> False | Some r \<Rightarrow> rl_enabled r)"

definition setupRateLimiting :: "auth_manager \<Rightarrow> auth_manager" where
  "setupRateLimiting m =
     (if \<not> rateLimit_enabled m then m
      else m\<lparr>maxAttempts := Some (or_int (Option.bind (rateLimit (config m)) rl_maxAttempts) 5),
             windowMs := Some (or_int (Option.bind (rateLimit (config m)) rl_windowMs) 900000)\<rparr>)"

text \<open>\<open>this.rateLimiter.get(key) || { count: 0, timestamp: Date.now() }\<close>.\<close>

definition get_attempts :: "auth_manager \<Rightarrow> string \<Rightarrow> int \<Rightarrow> attempts" where
  "get_attempts m key now =
     (case rateLimiter m key of Some a \<Rightarrow> a | None \<Rightarrow> \<lparr>count = 0, timestamp = now\<rparr>)"

definition checkRateLimit :: "auth_manager \<Rightarrow> int \<Rightarrow> string \<Rightarrow> bool \<times> auth_manager" where
  "checkRateLimit m now method =
     (if \<not> rateLimit_enabled m then (True, m)
      else
        let key = ''ratelimit_'' @ method;
            attempts = get_attempts m key now
        in if js_greater (now - timestamp attempts) (windowMs m)
           then (True, m\<lparr>rateLimiter := (rateLimiter m)(key := None)\<rparr>)
           else (js_less (count attempts) (maxAttempts m), m))"

definition incrementRateLimit :: "auth_manager \<Rightarrow> int \<Rightarrow> string \<Rightarrow> auth_manager" where
  "incrementRateLimit m now method =
     (if \<not> rateLimit_enabled m then m
      else
        let key = ''ratelimit_'' @ method;
            attempts = get_attempts m key now;
            attempts = attempts\<lparr>count := count attempts + 1\<rparr>
        in m\<lparr>rateLimiter := (rateLimiter m)(key \<mapsto> attempts)\<rparr>)"

definition resetRateLimit :: "auth_manager \<Rightarrow> string \<Rightarrow> auth_manager" where
  "resetRateLimit m method =
     (let key = ''ratelimit_'' @ method in m\<lparr>rateLimiter := (rateLimiter m)(key := None)\<rparr>)"

subsection \<open>Sessions\<close>

definition createSession :: "auth_manager \<Rightarrow> int \<Rightarrow> user \<Rightarrow> browser \<Rightarrow> browser" where
  "createSession m now u b =
     (let sessionData =
            \<lparr>s_user = u, loginTime = now,
             expiry = now + or_int (tokenExpiry (config m)) 86400000\<rparr>
      in setItem (sessionKey m) (SessionJson sessionData) b)"

definition logout :: "auth_manager \<Rightarrow> browser \<Rightarrow> browser" where
  "logout m b = (removeItem (sessionKey m) b)\<lparr>href := ''/index.html''\<rparr>"

text \<open>
  \<open>checkSession\<close>: no text, or the empty text, is \<open>false\<close>; a session text is
  compared with the clock; any other text throws inside the \<open>try\<close> block, which logs
  out.
\<close>

definition checkSession :: "auth_manager \<Rightarrow> int \<Rightarrow> browser \<Rightarrow> bool \<times> browser" where
  "checkSession m now b =
     (case getItem b (sessionKey m) of
        None \<Rightarrow> (False, b)
      | Some (SessionJson sessionData) \<Rightarrow>
          if expiry sessionData < now then (False, logout m b) else (True, b)
      | Some (Plain s) \<Rightarrow> if s = [] then (False, b) else (False, logout m b)
      | Some (CredentialsJson l) \<Rightarrow> (False, logout m b))"

definition getSession :: "auth_manager \<Rightarrow> browser \<Rightarrow> session_data option" where
  "getSession m b =
     (case getItem b (sessionKey m) of
        None \<Rightarrow> None
      | Some (SessionJson sessionData) \<Rightarrow> Some sessionData
      | Some (Plain s) \<Rightarrow> None
      | Some (CredentialsJson l) \<Rightarrow> None)"

subsection \<open>The three strategies\<close>

definition authenticateLocal :: "auth_manager \<Rightarrow> credentials option \<Rightarrow> exn + auth_result" where
  "authenticateLocal m creds =
     (case creds of
        None \<Rightarrow> Inl (Error ''Username and password required'')
      | Some c \<Rightarrow>
          if \<not> truthy (cr_username c) \<or> \<not> truthy (cr_password c)
          then Inl (Error ''Username and password required'')
          else
            (case demo_credentials (config m) of
               None \<Rightarrow> Inl (Error ''Invalid username or password'')
             | Some demoCredentials \<Rightarrow>
                 if cr_username c = cr_username demoCredentials
                    \<and> cr_password c = cr_password demoCredentials
                 then Inr \<lparr>ar_success = True,
                           ar_method = Some ''local'',
                           ar_user = Some \<lparr>u_username = cr_username c,
                                           u_displayName = cr_username c\<rparr>\<rparr>
                 else Inl (Error ''Invalid username or password'')))"

definition authenticateWebAuthn ::
  "auth_manager \<Rightarrow> platform \<Rightarrow> browser \<Rightarrow> (exn + auth_result) \<times> browser" where
  "authenticateWebAuthn m P b =
     (case webauthn m of
        None \<Rightarrow> (Inl (Error ''WebAuthn is not available''), b)
      | Some w \<Rightarrow>
          (case WebAuthn_authenticate w P b of
             (Inl e, b') \<Rightarrow> (Inl e, b')
           | (Inr result, b') \<Rightarrow>
               (Inr \<lparr>ar_success = wr_success result,
                     ar_method = Some ''webauthn'',
                     ar_user = Some \<lparr>u_username = Some (wr_username result),
                                     u_displayName = Some (wr_username result)\<rparr>\<rparr>, b')))"

definition authenticateOAuth2 ::
  "auth_manager \<Rightarrow> platform \<Rightarrow> string \<Rightarrow> browser
     \<Rightarrow> (exn + auth_result) \<times> auth_manager \<times> browser" where
  "authenticateOAuth2 m P provider b =
     (case oauth2 m of
        None \<Rightarrow> (Inl (Error ''OAuth2 is not available''), m, b)
      | Some o2 \<Rightarrow>
          (case OAuth2_authenticate o2 P provider b of
             (Inl e, o2', b') \<Rightarrow> (Inl e, m\<lparr>oauth2 := Some o2'\<rparr>, b')
           | (Inr u, o2', b') \<Rightarrow>
               (Inr \<lparr>ar_success = False, ar_method = None, ar_user = None\<rparr>,
                m\<lparr>oauth2 := Some o2'\<rparr>, b')))"

subsection \<open>authenticate\<close>

text \<open>
  The \<open>switch\<close> on the method, inside the \<open>try\<close> block.
\<close>

definition dispatch ::
  "auth_manager \<Rightarrow> platform \<Rightarrow> string \<Rightarrow> credentials option \<Rightarrow> browser
     \<Rightarrow> (exn + auth_result) \<times> auth_manager \<times> browser" where
  "dispatch m P method creds b =
     (if method = ''local'' then (authenticateLocal m creds, m, b)
      else if method = ''webauthn''
        then (let (r, b') = authenticateWebAuthn m P b in (r, m, b'))
      else authenticateOAuth2 m P method b)"

text \<open>
  \<open>authenticate\<close>: \<open>now\<close> is the clock at the rate-limit check, \<open>later\<close> the clock
  when the awaited strategy has settled. The rate-limit check is outside the \<open>try\<close>
  block; the \<open>catch\<close> block counts the failure and rethrows the same error.
\<close>

definition authenticate ::
  "auth_manager \<Rightarrow> platform \<Rightarrow> int \<Rightarrow> int \<Rightarrow> string \<Rightarrow> credentials option \<Rightarrow> browser
     \<Rightarrow> (exn + auth_result) \<times> auth_manager \<times> browser" where
  "authenticate m P now later method creds b =
     (case checkRateLimit m now method of
        (False, m1) \<Rightarrow> (Inl (Error ''Too many attempts. Please try again later.''), m1, b)
      | (True, m1) \<Rightarrow>
          (case dispatch m1 P method creds b of
             (Inr result, m2, b2) \<Rightarrow>
               let m3 = resetRateLimit m2 method;
                   b3 = (if ar_success result
                         then createSession m3 later
                                (case ar_user result of
                                   Some u \<Rightarrow> u
                                 | None \<Rightarrow> \<lparr>u_username = Option.bind creds cr_username,
                                             u_displayName = None\<rparr>) b2
                         else b2)
               in (Inr result, m3, b3)
           | (Inl error, m2, b2) \<Rightarrow> (Inl error, incrementRateLimit m2 later method, b2)))"

section \<open>Names of the specification\<close>

text \<open>
  The specification names the failures by kind. The modules throw \<open>Error\<close> objects
  that differ in their message; each kind below is the error the source throws at
  the place the specification describes.
\<close>

definition RateLimitedError :: exn where
  "RateLimitedError = Error ''Too many attempts. Please try again later.''"

definition CsrfMismatchError :: exn where
  "CsrfMismatchError = Error ''Invalid state parameter - possible CSRF attack''"

definition NoCredentialsError :: exn where
  "NoCredentialsError = Error ''No credentials registered. Please register first.''"

definition ProviderError :: "string \<Rightarrow> string option \<Rightarrow> exn" where
  "ProviderError code description =
     Error (''OAuth2 error: '' @ code @ '' - '' @ template description)"

text \<open>
  The specification's \<open>base64url\<close> is the encoding of RFC 4648, section 5, without
  padding: the alphabet of base64 with \<open>-\<close> for 62 and \<open>_\<close> for 63. Its unreserved
  characters are those of RFC 3986: letters, digits, \<open>-\<close>, \<open>.\<close>, \<open>_\<close> and \<open>~\<close>.
\<close>

definition b64urlchar_spec :: "nat \<Rightarrow> char" where
  "b64urlchar_spec n =
     (if n < 26 then char_of (65 + n)
      else if n < 52 then char_of (71 + n)
      else if n < 62 then char_of (n - 4)
      else if n = 62 then CHR ''-''
      else CHR ''_'')"

definition base64url_spec :: "byte list \<Rightarrow> string" where
  "base64url_spec bytes = map b64urlchar_spec (b64_sextets (map unat bytes))"

definition unreserved_spec :: "char \<Rightarrow> bool" where
  "unreserved_spec c =
     (let k = (of_char c :: nat) in
      (65 \<le> k \<and> k \<le> 90) \<or> (97 \<le> k \<and> k \<le> 122) \<or> (48 \<le> k \<and> k \<le> 57)
      \<or> k = 45 \<or> k = 46 \<or> k = 95 \<or> k = 126)"

section \<open>Concrete inputs\<close>

text \<open>
  Inputs at which the theorems below are evaluated. The platform's SHA-256 is a
  parameter of the model; \<open>platform0\<close> puts a stand-in in its place.
\<close>

definition platform0 :: platform where
  "platform0 =
     \<lparr>supported = True, sha256 = (\<lambda>data. take 4 data),
      credentials_create = (\<lambda>options. Inr None),
      credentials_get = (\<lambda>options. Inr None)\<rparr>"

definition platform_unsupported :: platform where
  "platform_unsupported = platform0\<lparr>supported := False\<rparr>"

definition browser0 :: browser where
  "browser0 =
     \<lparr>localStorage = Map.empty, href = ''/public/login.html'',
      entropy = (\<lambda>i. of_nat (7 * i + 3)), calls = []\<rparr>"

definition browser1 :: browser where
  "browser1 =
     \<lparr>localStorage = Map.empty, href = ''/private/dashboard.html'',
      entropy = (\<lambda>i. of_nat (11 * i + 5)), calls = [GetRandomValues 32]\<rparr>"

definition webauthn0 :: webauthn_auth where
  "webauthn0 = \<lparr>rpName = ''DrYouu Research Lab'', rpId = ''localhost'', wa_config = None\<rparr>"

definition webauthn1 :: webauthn_auth where
  "webauthn1 =
     \<lparr>rpName = ''Lab'', rpId = ''example.org'',
      wa_config =
        Some \<lparr>authenticatorAttachment = Some ''cross-platform'',
              requireResidentKey = Some True, userVerification = Some ''required'',
              timeout = Some 30000, attestation = Some ''direct''\<rparr>\<rparr>"

definition google0 :: provider where
  "google0 =
     \<lparr>p_name = ''Google'', clientId = ''client-1'',
      authUrl = ''https://accounts.google.com/o/oauth2/v2/auth'',
      tokenUrl = ''https://oauth2.googleapis.com/token'', scope = ''openid email'',
      redirectUri = ''http://localhost/auth/callback'', responseMode = None, icon = ''G''\<rparr>"

definition oauth0 :: oauth2_auth where
  "oauth0 =
     \<lparr>providers = [''google'' \<mapsto> google0], currentProvider = None,
      callbackUrl = ''http://localhost/auth/callback''\<rparr>"

definition browser_pending :: browser where
  "browser_pending =
     browser0\<lparr>localStorage :=
       [''oauth2_state'' \<mapsto> Plain ''right'',
        ''oauth2_code_verifier'' \<mapsto> Plain ''verifier'',
        ''oauth2_provider'' \<mapsto> Plain ''google'']\<rparr>"

definition params_wrong :: "string \<rightharpoonup> string" where
  "params_wrong = [''state'' \<mapsto> ''wrong'', ''code'' \<mapsto> ''x'']"

text \<open>
  A callback without \<open>state\<close> parameter (\<open>/auth/callback?code=x\<close>), and a storage
  in which no state is stored but a provider name is.
\<close>

definition params_no_state :: "string \<rightharpoonup> string" where
  "params_no_state = [''code'' \<mapsto> ''x'']"

definition browser_leftover :: browser where
  "browser_leftover =
     browser0\<lparr>localStorage := [''oauth2_provider'' \<mapsto> Plain ''google'']\<rparr>"

definition params_first :: "string \<rightharpoonup> string" where
  "params_first =
     [''state'' \<mapsto> ''030a11181f262d343b424950575e656c737a81888f969da4abb2b9c0c7ced5dc'',
      ''code'' \<mapsto> ''x'']"

definition params_second :: "string \<rightharpoonup> string" where
  "params_second =
     [''state'' \<mapsto> ''c3cad1d8dfe6edf4fb020910171e252c333a41484f565d646b727980878e959c'',
      ''code'' \<mapsto> ''x'']"

text \<open>Two authorizations started one after the other, with no callback in between.\<close>

definition first_flow :: "(exn + unit) \<times> oauth2_auth \<times> browser" where
  "first_flow = OAuth2_authenticate oauth0 platform0 ''google'' browser0"

definition second_flow :: "(exn + unit) \<times> oauth2_auth \<times> browser" where
  "second_flow =
     OAuth2_authenticate (fst (snd first_flow)) platform0 ''google'' (snd (snd first_flow))"

definition config0 :: auth_config where
  "config0 =
     \<lparr>tokenExpiry = None,
      demo_credentials = Some \<lparr>cr_username = Some ''admin'', cr_password = Some ''secret''\<rparr>,
      rateLimit =
        Some \<lparr>rl_enabled = True, rl_maxAttempts = Some 5, rl_windowMs = Some 900000\<rparr>\<rparr>"

definition manager0 :: auth_manager where
  "manager0 =
     setupRateLimiting
       \<lparr>config = config0, webauthn = None, oauth2 = None, sessionKey = ''dryouu_session'',
        rateLimiter = Map.empty, maxAttempts = None, windowMs = None\<rparr>"


text \<open>An entry whose window started at time 0, and the entry after \<open>n\<close> failures the
  first of which was recorded at time 1001.\<close>

definition manager_stale :: auth_manager where
  "manager_stale =
     manager0\<lparr>rateLimiter := [''ratelimit_local'' \<mapsto> \<lparr>count = 3, timestamp = 0\<rparr>]\<rparr>"

definition manager_failed :: "int \<Rightarrow> auth_manager" where
  "manager_failed n =
     manager0\<lparr>rateLimiter := [''ratelimit_local'' \<mapsto> \<lparr>count = n, timestamp = 1001\<rparr>]\<rparr>"

definition wrong_credentials :: credentials where
  "wrong_credentials = \<lparr>cr_username = Some ''admin'', cr_password = Some ''wrong''\<rparr>"

definition right_credentials :: credentials where
  "right_credentials = \<lparr>cr_username = Some ''admin'', cr_password = Some ''secret''\<rparr>"

definition session0 :: session_data where
  "session0 =
     \<lparr>s_user = \<lparr>u_username = Some ''admin'', u_displayName = Some ''admin''\<rparr>,
      loginTime = 0, expiry = 999\<rparr>"

definition browser_session :: browser where
  "browser_session =
     browser0\<lparr>localStorage := [''dryouu_session'' \<mapsto> SessionJson session0]\<rparr>"

section \<open>Base64 decodes what it encodes\<close>

lemma b64_sextets_less:
  "\<forall>a\<in>set bs. a < 256 \<Longrightarrow> \<forall>s\<in>set (b64_sextets bs). s < 64"
  by (induction bs rule: b64_sextets.induct) (auto simp: less_mult_imp_div_less)

lemma of_char_b64char:
  "n < 64 \<Longrightarrow> (of_char (b64char n) :: nat) =
     (if n < 26 then 65 + n else if n < 52 then 71 + n else if n < 62 then n - 4
      else if n = 62 then 43 else 47)"
  by (simp add: b64char_def)

lemma b64index_b64char: "n < 64 \<Longrightarrow> b64index (b64char n) = Some n"
  unfolding b64index_def Let_def by (simp only: of_char_b64char) auto

lemma b64char_not_whitespace: "n < 64 \<Longrightarrow> \<not> is_ascii_whitespace (b64char n)"
  unfolding is_ascii_whitespace_def by (simp only: of_char_b64char) auto

lemma b64char_not_pad: "n < 64 \<Longrightarrow> b64char n \<noteq> CHR ''=''"
proof
  assume n: "n < 64" and "b64char n = CHR ''=''"
  then have "(of_char (b64char n) :: nat) = of_char (CHR ''='')" by simp
  then show False using n by (simp only: of_char_b64char) (auto split: if_splits)
qed

lemma first_octet: "(a::nat) div 4 * 4 + (a mod 4 * 16 + b div 16) div 16 = a" if "b < 256"
proof -
  have "b div 16 < 16" using that by simp
  then have "(a mod 4 * 16 + b div 16) div 16 = a mod 4" by simp
  then show ?thesis by simp
qed

lemma second_octet:
  "((a::nat) mod 4 * 16 + b div 16) mod 16 * 16 + (b mod 16 * 4 + c div 64) div 4 = b"
  if "b < 256" "c < 256"
proof -
  have "b div 16 < 16" using that by simp
  then have 1: "(a mod 4 * 16 + b div 16) mod 16 = b div 16" by simp
  have "c div 64 < 4" using that by simp
  then have 2: "(b mod 16 * 4 + c div 64) div 4 = b mod 16" by simp
  show ?thesis unfolding 1 2 by simp
qed

lemma third_octet: "((b::nat) mod 16 * 4 + c div 64) mod 4 * 64 + c mod 64 = c" if "c < 256"
proof -
  have "c div 64 < 4" using that by simp
  then have 1: "(b mod 16 * 4 + c div 64) mod 4 = c div 64" by simp
  show ?thesis unfolding 1 by simp
qed

lemma second_octet_rest:
  "((a::nat) mod 4 * 16 + b div 16) mod 16 * 16 + (b mod 16 * 4) div 4 = b" if "b < 256"
proof -
  have "b div 16 < 16" using that by simp
  then have 1: "(a mod 4 * 16 + b div 16) mod 16 = b div 16" by simp
  show ?thesis unfolding 1 by simp
qed

lemma first_octet_rest: "(a::nat) div 4 * 4 + (a mod 4 * 16) div 16 = a"
  by simp

lemma b64_octets_sextets: "\<forall>a\<in>set bs. a < 256 \<Longrightarrow> b64_octets (b64_sextets bs) = bs"
proof (induction bs rule: b64_sextets.induct)
  case 1
  show ?case by simp
next
  case (2 a)
  show ?case by (simp only: b64_sextets.simps b64_octets.simps first_octet_rest)
next
  case (3 a b)
  then have "b < 256" by simp
  then show ?case
    by (simp only: b64_sextets.simps b64_octets.simps first_octet second_octet_rest)
next
  case (4 a b c r)
  then have lt: "b < 256" "c < 256" and r: "b64_octets (b64_sextets r) = r" by simp_all
  show ?case
    by (simp only: b64_sextets.simps b64_octets.simps first_octet [OF lt(1)]
        second_octet [OF lt] third_octet [OF lt(2)] r)
qed

lemma length_b64_sextets:
  "length (b64_sextets bs) mod 4 = (case length bs mod 3 of 0 \<Rightarrow> 0 | Suc 0 \<Rightarrow> 2 | _ \<Rightarrow> 3)"
  by (induction bs rule: b64_sextets.induct) (simp_all add: mod_Suc split: nat.splits)

lemma strip_padding_append:
  assumes "p \<le> 2" "\<forall>c\<in>set xs. c \<noteq> CHR ''=''"
  shows "strip_padding (xs @ replicate p (CHR ''='')) = xs"
proof -
  have l: "xs \<noteq> [] \<Longrightarrow> last xs \<noteq> CHR ''=''" using assms(2) last_in_set by blast
  consider "p = 0" | "p = 1" | "p = 2" using assms(1) by linarith
  then show ?thesis
  proof cases
    case 1
    then show ?thesis using l by (cases "xs = []") (auto simp: strip_padding_def)
  next
    case 2
    then show ?thesis using l by (cases "xs = []") (auto simp: strip_padding_def)
  next
    case 3
    then have r: "replicate p (CHR ''='') = [CHR ''='', CHR ''='']"
      by (simp add: numeral_2_eq_2)
    show ?thesis unfolding r strip_padding_def by (simp add: butlast_append)
  qed
qed

lemma btoa_body_chars:
  "\<forall>c\<in>set (map b64char (b64_sextets (map of_char s))).
      c \<noteq> CHR ''='' \<and> \<not> is_ascii_whitespace c \<and> b64index c \<noteq> None"
  using b64_sextets_less [of "map of_char s"]
  by (auto simp: b64char_not_pad b64char_not_whitespace b64index_b64char)

lemma b64index_body:
  "map (the \<circ> b64index) (map b64char (b64_sextets (map of_char s)))
     = b64_sextets (map of_char s)"
  using b64_sextets_less [of "map of_char s"]
  by (simp add: b64index_b64char map_idI)

lemma pad_not_whitespace: "\<not> is_ascii_whitespace (CHR ''='')"
  by (simp add: is_ascii_whitespace_def)

lemma atob_btoa: "atob (btoa s) = Some s"
proof -
  define xs where "xs = map b64char (b64_sextets (map of_char s))"
  define p where "p = (3 - length s mod 3) mod 3"
  have chars: "\<forall>c\<in>set xs. c \<noteq> CHR ''='' \<and> \<not> is_ascii_whitespace c \<and> b64index c \<noteq> None"
    unfolding xs_def by (rule btoa_body_chars)
  have p: "p \<le> 2" unfolding p_def by simp
  have b: "btoa s = xs @ replicate p (CHR ''='')" by (simp add: btoa_def xs_def p_def)
  have f: "filter (\<lambda>c. \<not> is_ascii_whitespace c) (xs @ replicate p (CHR ''=''))
             = xs @ replicate p (CHR ''='')"
    using chars by (simp add: pad_not_whitespace filter_id_conv)
  have lx: "length xs mod 4 = (case length s mod 3 of 0 \<Rightarrow> 0 | Suc 0 \<Rightarrow> 2 | _ \<Rightarrow> 3)"
    unfolding xs_def using length_b64_sextets [of "map of_char s"] by simp
  have l0: "length (xs @ replicate p (CHR ''='')) mod 4 = 0"
  proof -
    have "length s mod 3 < 3" by simp
    then consider "length s mod 3 = 0" | "length s mod 3 = 1" | "length s mod 3 = 2"
      by linarith
    then have "(length xs mod 4 + p) mod 4 = 0" unfolding lx p_def
      by cases simp_all
    then show ?thesis by (simp add: mod_simps)
  qed
  have l1: "length xs mod 4 \<noteq> 1" unfolding lx by (simp split: nat.splits)
  have st: "strip_padding (xs @ replicate p (CHR ''='')) = xs"
    using p chars by (simp add: strip_padding_append)
  have ex: "\<not> list_ex (\<lambda>c. b64index c = None) xs" using chars by (simp add: list_ex_iff)
  have dec: "map char_of (b64_octets (map (the \<circ> b64index) xs)) = s"
    unfolding xs_def b64index_body by (simp add: b64_octets_sextets comp_def)
  show ?thesis unfolding b atob_def Let_def f
    using l0 l1 st ex dec by simp
qed

lemma append_loop:
  "foldl (\<lambda>binary i. binary @ [f (bytes ! i)]) [] [0..<n] = map f (take n bytes)"
  if "n \<le> length bytes"
  using that by (induction n) (simp_all add: take_Suc_conv_app_nth)

lemma update_loop:
  "k \<le> n \<Longrightarrow> foldl (\<lambda>bytes i. bytes[i := g i]) (replicate n z) [0..<k]
                 = map g [0..<k] @ replicate (n - k) z"
proof (induction k)
  case 0
  then show ?case by simp
next
  case (Suc k)
  then have nk: "n - k = Suc (n - Suc k)"
    and ih: "foldl (\<lambda>bytes i. bytes[i := g i]) (replicate n z) [0..<k]
               = map g [0..<k] @ replicate (n - k) z" by simp_all
  show ?case by (simp add: ih list_update_append) (simp add: nk)
qed

lemma binary_of_bytes:
  "foldl (\<lambda>binary i. binary @ [fromCharCode (bytes ! i)]) [] [0..<length bytes]
     = map fromCharCode bytes"
  using append_loop [of "length bytes" bytes fromCharCode] by simp

lemma bytes_of_binary:
  "foldl (\<lambda>bytes i. bytes[i := of_nat (charCodeAt binary i)])
      (replicate (length binary) 0) [0..<length binary]
     = map (\<lambda>c. of_nat (of_char c)) binary"
proof -
  have "foldl (\<lambda>bytes i. bytes[i := of_nat (charCodeAt binary i)])
          (replicate (length binary) 0) [0..<length binary]
        = map (\<lambda>i. of_nat (charCodeAt binary i)) [0..<length binary]"
    by (simp add: update_loop del: upt_Suc)
  also have "\<dots> = map (\<lambda>c. of_nat (of_char c)) binary"
    by (rule nth_equalityI) (simp_all add: charCodeAt_def)
  finally show ?thesis .
qed

lemma byte_of_fromCharCode: "(of_nat (of_char (fromCharCode b)) :: byte) = b"
proof -
  have "unat b < 256" using unsigned_less [of b, where 'a = nat] by simp
  then show ?thesis by (simp add: fromCharCode_def)
qed

lemma arrayBufferToBase64_btoa: "arrayBufferToBase64 b = btoa (map fromCharCode b)"
  by (simp only: arrayBufferToBase64_def Let_def binary_of_bytes)

text \<open>
  C10. The transport encoding round-trips: decoding the base64 text of a byte buffer
  with \<open>base64ToArrayBuffer\<close> returns, without throwing, the buffer that
  \<open>arrayBufferToBase64\<close> encoded. A stored credential id is therefore rebuilt exactly.
\<close>

theorem transport_roundtrip: "base64ToArrayBuffer (arrayBufferToBase64 b) = Inr b"
proof -
  have "base64ToArrayBuffer (btoa (map fromCharCode b))
          = Inr (map (\<lambda>c. of_nat (of_char c)) (map fromCharCode b))"
    by (simp only: base64ToArrayBuffer_def atob_btoa option.case bytes_of_binary)
  also have "map (\<lambda>c. of_nat (of_char c)) (map fromCharCode b) = b"
    by (simp add: byte_of_fromCharCode comp_def)
  finally show ?thesis by (simp only: arrayBufferToBase64_btoa)
qed

theorem transport_roundtrip_witness:
  "arrayBufferToBase64 [255, 0, 77, 97] = ''/wBNYQ==''
     \<and> base64ToArrayBuffer ''/wBNYQ=='' = Inr [255, 0, 77, 97]"
proof -
  have e: "arrayBufferToBase64 [255, 0, 77, 97] = ''/wBNYQ==''" by code_simp
  show ?thesis using transport_roundtrip [of "[255, 0, 77, 97]"] by (simp add: e)
qed

section \<open>The PKCE pair\<close>

lemma of_char_hexdigit:
  "n < 16 \<Longrightarrow> (of_char (hexdigit n) :: nat) = (if n < 10 then 48 + n else 87 + n)"
  by (simp add: hexdigit_def)

lemma hexdigit_unreserved: "n < 16 \<Longrightarrow> unreserved_spec (hexdigit n)"
  unfolding unreserved_spec_def Let_def by (simp only: of_char_hexdigit) auto

lemma hex_pair:
  "length (padStart 2 (CHR ''0'') (toString16 b)) = 2
     \<and> list_all unreserved_spec (padStart 2 (CHR ''0'') (toString16 b))"
proof -
  have z: "unreserved_spec (CHR ''0'')" by (simp add: unreserved_spec_def)
  have "unat b < 256" using unsigned_less [of b, where 'a = nat] by simp
  then have "unat b div 16 < 16" by simp
  then show ?thesis
    by (simp add: padStart_def toString16_def Let_def hexdigit_unreserved z)
qed

lemma length_hex_of_bytes: "length (hex_of_bytes array) = 2 * length array"
  by (induction array) (simp_all add: hex_of_bytes_def hex_pair)

lemma unreserved_hex_of_bytes: "list_all unreserved_spec (hex_of_bytes array)"
  by (induction array) (simp_all add: hex_of_bytes_def hex_pair)

lemma url_char:
  assumes n: "n < 64"
  shows "replace_all (CHR ''/'') (CHR ''_'') (replace_all (CHR ''+'') (CHR ''-'') [b64char n])
           = [b64urlchar_spec n]"
proof -
  have plus: "b64char n = CHR ''+'' \<longleftrightarrow> n = 62"
  proof -
    have "b64char n = CHR ''+'' \<longleftrightarrow> (of_char (b64char n) :: nat) = of_char (CHR ''+'')"
      by (simp only: of_char_eq_iff)
    also have "\<dots> \<longleftrightarrow> n = 62" using n by (simp only: of_char_b64char) auto
    finally show ?thesis .
  qed
  have slash: "b64char n = CHR ''/'' \<longleftrightarrow> n = 63"
  proof -
    have "b64char n = CHR ''/'' \<longleftrightarrow> (of_char (b64char n) :: nat) = of_char (CHR ''/'')"
      by (simp only: of_char_eq_iff)
    also have "\<dots> \<longleftrightarrow> n = 63" using n by (simp only: of_char_b64char) auto
    finally show ?thesis .
  qed
  show ?thesis
  proof (cases "n = 62 \<or> n = 63")
    case True
    then show ?thesis by (auto simp: replace_all_def b64char_def b64urlchar_spec_def)
  next
    case False
    then have "b64char n \<noteq> CHR ''+''" "b64char n \<noteq> CHR ''/''" using plus slash by simp_all
    moreover have "b64urlchar_spec n = b64char n" using False n
      by (simp add: b64char_def b64urlchar_spec_def)
    ultimately show ?thesis by (simp add: replace_all_def)
  qed
qed

lemma of_char_b64urlchar:
  "n < 64 \<Longrightarrow> (of_char (b64urlchar_spec n) :: nat) =
     (if n < 26 then 65 + n else if n < 52 then 71 + n else if n < 62 then n - 4
      else if n = 62 then 45 else 95)"
  by (simp add: b64urlchar_spec_def)

lemma b64urlchar_not_pad: "n < 64 \<Longrightarrow> b64urlchar_spec n \<noteq> CHR ''=''"
proof
  assume n: "n < 64" and "b64urlchar_spec n = CHR ''=''"
  then have "(of_char (b64urlchar_spec n) :: nat) = of_char (CHR ''='')" by simp
  then show False using n by (simp only: of_char_b64urlchar) (auto split: if_splits)
qed

lemma url_chars:
  "\<forall>n\<in>set ns. n < 64 \<Longrightarrow>
   replace_all (CHR ''/'') (CHR ''_'') (replace_all (CHR ''+'') (CHR ''-'') (map b64char ns))
     = map b64urlchar_spec ns"
proof (induction ns)
  case Nil
  show ?case by (simp add: replace_all_def)
next
  case (Cons n ns)
  then have "n < 64"
    and ih: "replace_all (CHR ''/'') (CHR ''_'')
               (replace_all (CHR ''+'') (CHR ''-'') (map b64char ns))
             = map b64urlchar_spec ns" by simp_all
  from url_char [OF \<open>n < 64\<close>] ih show ?case by (simp add: replace_all_def)
qed

lemma replace_pad:
  "replace_all (CHR ''/'') (CHR ''_'')
     (replace_all (CHR ''+'') (CHR ''-'') (xs @ replicate p (CHR ''='')))
   = replace_all (CHR ''/'') (CHR ''_'') (replace_all (CHR ''+'') (CHR ''-'') xs)
       @ replicate p (CHR ''='')"
  by (simp add: replace_all_def)

lemma remove_pad:
  "\<forall>c\<in>set xs. c \<noteq> CHR ''='' \<Longrightarrow> remove_all (CHR ''='') (xs @ replicate p (CHR ''='')) = xs"
  by (simp add: remove_all_def filter_id_conv)

lemma unat_fromCharCode: "map of_char (map fromCharCode hash) = map unat hash"
proof -
  have "(of_char (fromCharCode b) :: nat) = unat b" for b
  proof -
    have "unat b < 256" using unsigned_less [of b, where 'a = nat] by simp
    then show ?thesis by (simp add: fromCharCode_def)
  qed
  then show ?thesis by simp
qed

lemma unat_bytes_less: "\<forall>a\<in>set (map unat (hash :: byte list)). a < 256"
proof -
  have "unat b < 256" for b :: byte using unsigned_less [of b, where 'a = nat] by simp
  then show ?thesis by simp
qed

lemma challenge_is_base64url:
  "remove_all (CHR ''='')
     (replace_all (CHR ''/'') (CHR ''_'')
        (replace_all (CHR ''+'') (CHR ''-'') (btoa (map fromCharCode hash))))
   = base64url_spec hash"
proof -
  define ns where "ns = b64_sextets (map unat hash)"
  have lt: "\<forall>n\<in>set ns. n < 64"
    unfolding ns_def using b64_sextets_less [OF unat_bytes_less] .
  have b: "btoa (map fromCharCode hash)
             = map b64char ns @ replicate ((3 - length hash mod 3) mod 3) (CHR ''='')"
    unfolding btoa_def unat_fromCharCode ns_def by simp
  have np: "\<forall>c\<in>set (map b64urlchar_spec ns). c \<noteq> CHR ''=''"
    using lt by (simp add: b64urlchar_not_pad)
  show ?thesis
    unfolding b replace_pad url_chars [OF lt] remove_pad [OF np]
    by (simp add: base64url_spec_def ns_def)
qed

lemma generatePKCE_pair:
  "fst (generatePKCE P b) =
     \<lparr>codeVerifier = hex_of_bytes (map (entropy b) [0..<32]),
      codeChallenge =
        base64url_spec
          (sha256 P (TextEncoder_encode (hex_of_bytes (map (entropy b) [0..<32]))))\<rparr>"
  by (simp add: generatePKCE_def getRandomValues_def Let_def challenge_is_base64url
      del: upt_Suc)

text \<open>
  C4. Every pair \<open>generatePKCE\<close> produces has
  \<open>codeChallenge = base64url(SHA-256(codeVerifier))\<close>, the unpadded URL-safe encoding
  of the digest of the verifier's bytes, and a verifier of 43 to 128 characters, all
  unreserved. This holds for every platform digest and every entropy.
\<close>

theorem pkce_pair:
  "codeChallenge (fst (generatePKCE P b))
     = base64url_spec (sha256 P (TextEncoder_encode (codeVerifier (fst (generatePKCE P b)))))
   \<and> 43 \<le> length (codeVerifier (fst (generatePKCE P b)))
   \<and> length (codeVerifier (fst (generatePKCE P b))) \<le> 128
   \<and> list_all unreserved_spec (codeVerifier (fst (generatePKCE P b)))"
  by (simp add: generatePKCE_pair length_hex_of_bytes unreserved_hex_of_bytes del: upt_Suc)

lemma verifier0:
  "codeVerifier (fst (generatePKCE platform0 browser0))
     = ''030a11181f262d343b424950575e656c737a81888f969da4abb2b9c0c7ced5dc''"
  by code_simp

theorem pkce_pair_witness:
  "codeVerifier (fst (generatePKCE platform0 browser0))
     = ''030a11181f262d343b424950575e656c737a81888f969da4abb2b9c0c7ced5dc''
   \<and> codeChallenge (fst (generatePKCE platform0 browser0))
       = base64url_spec (take 4 (TextEncoder_encode
           ''030a11181f262d343b424950575e656c737a81888f969da4abb2b9c0c7ced5dc''))
   \<and> list_all unreserved_spec
        ''030a11181f262d343b424950575e656c737a81888f969da4abb2b9c0c7ced5dc''"
proof -
  have s: "sha256 platform0 = take 4" by (simp add: platform0_def)
  from pkce_pair [of platform0 browser0] show ?thesis unfolding verifier0 s by blast
qed

section \<open>WebAuthn: user handle and empty credential list\<close>

lemma storeCredential_calls: "storeCredential u c now b = Inr b' \<Longrightarrow> calls b' = calls b"
  by (auto simp: storeCredential_def setItem_def Let_def split: sum.splits)

lemma register_calls:
  assumes "isSupported P"
  shows "calls (snd (register w P now username b)) =
           calls b @ [GetRandomValues 32,
                      CredentialsCreate (publicKeyCredentialCreationOptions w
                        (map (entropy b) [0..<32]) (generateUserId username) username)]"
proof -
  let ?opts = "publicKeyCredentialCreationOptions w (map (entropy b) [0..<32])
                 (generateUserId username) username"
  show ?thesis
  proof (cases "credentials_create P ?opts")
    case (Inl e)
    then show ?thesis using assms
      by (simp add: register_def generateChallenge_def getRandomValues_def Let_def
          del: upt_Suc)
  next
    case (Inr r)
    show ?thesis
    proof (cases r)
      case None
      then show ?thesis using assms Inr
        by (simp add: register_def generateChallenge_def getRandomValues_def Let_def
            del: upt_Suc)
    next
      case (Some credential)
      then show ?thesis using assms Inr
        by (auto simp add: register_def generateChallenge_def getRandomValues_def Let_def
            dest: storeCredential_calls split: sum.splits simp del: upt_Suc)
    qed
  qed
qed

text \<open>
  C9. The user handle is a function of the username alone. Whatever the module's
  configuration, the platform, the clock, the stored credentials and the entropy of
  two \<open>register\<close> calls, the creation options each call hands to
  \<open>navigator.credentials.create\<close> carry the same \<open>user.id\<close>, the encoding of the
  username.
\<close>

theorem user_handle_deterministic:
  assumes "isSupported P1" and "isSupported P2"
  shows "\<exists>o1 o2. last (calls (snd (register w1 P1 t1 username b1))) = CredentialsCreate o1
           \<and> last (calls (snd (register w2 P2 t2 username b2))) = CredentialsCreate o2
           \<and> co_user_id o1 = generateUserId username
           \<and> co_user_id o2 = co_user_id o1"
  by (simp add: register_calls [OF assms(1)] register_calls [OF assms(2)]
      publicKeyCredentialCreationOptions_def)

lemma user_id_alice: "generateUserId ''alice'' = [97, 108, 105, 99, 101]"
  by code_simp

theorem user_handle_deterministic_witness:
  "isSupported platform0 \<and>
   (\<exists>o1 o2. last (calls (snd (register webauthn0 platform0 1000 ''alice'' browser0)))
               = CredentialsCreate o1
           \<and> last (calls (snd (register webauthn1 platform0 2000 ''alice'' browser1)))
               = CredentialsCreate o2
           \<and> co_user_id o1 = [97, 108, 105, 99, 101]
           \<and> co_user_id o2 = [97, 108, 105, 99, 101])"
proof -
  have s: "isSupported platform0" by (simp add: isSupported_def platform0_def)
  from user_handle_deterministic
         [OF s s, of webauthn0 1000 "''alice''" browser0 webauthn1 2000 browser1]
  show ?thesis unfolding user_id_alice using s by metis
qed

text \<open>
  C8, as the code has it. With no credential stored, \<open>authenticate\<close> fails and leaves
  the browser as it was: no challenge is drawn and \<open>navigator.credentials.get\<close> is
  not called. The error is \<open>NoCredentialsError\<close> when WebAuthn is supported; the
  support check comes first and throws its own error otherwise.
\<close>

theorem webauthn_no_credentials:
  assumes "getStoredCredentials b = Inr []"
  shows "WebAuthn_authenticate w P b =
           (Inl (if isSupported P then NoCredentialsError
                 else Error ''WebAuthn is not supported''), b)"
  using assms by (simp add: WebAuthn_authenticate_def NoCredentialsError_def)

theorem webauthn_no_credentials_witness:
  "getStoredCredentials browser0 = Inr []
   \<and> WebAuthn_authenticate webauthn0 platform0 browser0 = (Inl NoCredentialsError, browser0)
   \<and> calls browser0 = []"
proof -
  have e: "getStoredCredentials browser0 = Inr []"
    by (simp add: getStoredCredentials_def parseCredentials_def getItem_def browser0_def)
  have s: "isSupported platform0" by (simp add: isSupported_def platform0_def)
  from webauthn_no_credentials [OF e, of webauthn0 platform0] show ?thesis
    using e s by (simp add: browser0_def)
qed

text \<open>
  The claim as stated fails where WebAuthn is not supported: the call with no stored
  credential throws the support error, not \<open>NoCredentialsError\<close>.
\<close>

theorem unsupported_platform_error_first:
  "getStoredCredentials browser0 = Inr []
   \<and> fst (WebAuthn_authenticate webauthn0 platform_unsupported browser0)
       = Inl (Error ''WebAuthn is not supported'')
   \<and> fst (WebAuthn_authenticate webauthn0 platform_unsupported browser0)
       \<noteq> Inl NoCredentialsError"
  by (simp add: getStoredCredentials_def parseCredentials_def getItem_def browser0_def
      WebAuthn_authenticate_def isSupported_def platform_unsupported_def platform0_def
      NoCredentialsError_def)

section \<open>OAuth2: the state check of the callback\<close>

text \<open>
  Where the comparison \<open>state !== storedState\<close> finds a difference, the callback
  fails and leaves the browser as it was, so no token exchange is recorded: with
  \<open>CsrfMismatchError\<close>, or with the provider's error when the callback carries an
  \<open>error\<close> parameter, which is examined first.
\<close>

lemma state_difference_rejected:
  assumes "map_option Plain (params ''state'') \<noteq> getStoredState b"
  shows "handleCallback oa params now b =
           (Inl (if truthy (params ''error'')
                 then ProviderError (the (params ''error'')) (params ''error_description'')
                 else CsrfMismatchError), b)"
  using assms
  by (auto simp: handleCallback_def Let_def ProviderError_def CsrfMismatchError_def truthy_def
      split: option.splits)

lemma wrong_state_rejected:
  "handleCallback oauth0 params_wrong 1000 browser_pending
     = (Inl CsrfMismatchError, browser_pending)"
  by (simp add: state_difference_rejected params_wrong_def getStoredState_def getItem_def
      browser_pending_def truthy_def)

text \<open>
  C1. The claim: a callback whose state does not match a pending ceremony, the case
  that no ceremony is pending included, fails with \<open>CsrfMismatchError\<close> and runs no
  token exchange. The code misses one case of it. A callback without \<open>state\<close>
  parameter reads \<open>null\<close>; when no state is stored, \<open>getStoredState\<close> is \<open>null\<close> as
  well, \<open>null !== null\<close> is false and the check passes. On an empty storage the
  callback then fails at the provider lookup, with \<open>Provider not found\<close> instead of
  \<open>CsrfMismatchError\<close>. With a provider name left in storage it goes on: the token
  exchange and the user-info request run and the callback succeeds, although no
  ceremony was pending.
\<close>

theorem state_check_passes_without_ceremony:
  "params_no_state ''state'' = None
   \<and> params_no_state ''error'' = None
   \<and> getStoredState browser0 = None
   \<and> handleCallback oauth0 params_no_state 1000 browser0
       = (Inl (Error ''Provider not found''), browser0)
   \<and> Error ''Provider not found'' \<noteq> CsrfMismatchError
   \<and> getStoredState browser_leftover = None
   \<and> calls browser_leftover = []
   \<and> (\<exists>res. fst (handleCallback oauth0 params_no_state 1000 browser_leftover) = Inr res
              \<and> cb_success res \<and> cb_provider res = ''google'')
   \<and> calls (snd (handleCallback oauth0 params_no_state 1000 browser_leftover))
       = [ExchangeCodeForToken (Some ''x''), GetUserInfo ''google'']"
  by (simp add: params_no_state_def getStoredState_def getItem_def browser0_def
      browser_leftover_def handleCallback_def truthy_def stored_name_def oauth0_def
      exchangeCodeForToken_def getUserInfo_def clearStoredState_def clearCodeVerifier_def
      removeItem_def CsrfMismatchError_def Let_def)

section \<open>OAuth2: one pending ceremony\<close>

lemma generateState_eq:
  "generateState b =
     (hex_of_bytes (map (entropy b) [0..<32]),
      b\<lparr>entropy := (\<lambda>i. entropy b (i + 32)), calls := calls b @ [GetRandomValues 32]\<rparr>)"
  by (simp add: generateState_def getRandomValues_def del: upt_Suc)

lemma OAuth2_authenticate_started:
  assumes "providers oa p = Some pr"
  shows "\<exists>b'. OAuth2_authenticate oa P p b = (Inr (), oa\<lparr>currentProvider := Some p\<rparr>, b')
     \<and> localStorage b' = (localStorage b)
          (''oauth2_state'' \<mapsto> Plain (fst (generateState b)),
           ''oauth2_code_verifier'' \<mapsto>
              Plain (codeVerifier (fst (generatePKCE P (snd (generateState b))))),
           ''oauth2_provider'' \<mapsto> Plain p)
     \<and> entropy b' = (\<lambda>i. entropy b (i + 64))"
  using assms
  by (simp add: OAuth2_authenticate_def generateState_eq generatePKCE_def getRandomValues_def
      storeState_def storeCodeVerifier_def setItem_def Let_def add.assoc del: upt_Suc)

lemma callback_accepted:
  assumes "\<not> truthy (params ''error'')"
    and "map_option Plain (params ''state'') = getStoredState b"
    and "getItem b ''oauth2_provider'' = Some (Plain p)"
    and "providers oa p = Some pr"
  shows "\<exists>res b'. handleCallback oa params now b = (Inr res, b') \<and> cb_provider res = p
           \<and> cb_success res
           \<and> getItem b' ''oauth2_state'' = None \<and> getItem b' ''oauth2_code_verifier'' = None
           \<and> getItem b' ''oauth2_provider'' = None"
  using assms
  by (simp add: handleCallback_def Let_def stored_name_def exchangeCodeForToken_def
      getUserInfo_def clearStoredState_def clearCodeVerifier_def removeItem_def getItem_def
      getStoredState_def)

text \<open>
  C6. The code takes the second branch of the claim: it never rejects a second
  authorization as being in progress, it overwrites. After a first authorization has
  stored its state, a second one started before any callback replaces the stored
  state, code verifier and provider with its own, so that the storage holds one
  ceremony, the latest. A callback then passes the state check exactly when it
  carries the latest state; with any other state, the first ceremony's included, it
  fails with \<open>CsrfMismatchError\<close>.
\<close>

theorem second_authorization_supersedes:
  assumes p1: "providers oa p1 = Some pr1" and p2: "providers oa p2 = Some pr2"
    and first: "OAuth2_authenticate oa P p1 b0 = (r1, oa1, b1)"
    and second: "OAuth2_authenticate oa1 P p2 b1 = (r2, oa2, b2)"
  shows "getItem b1 ''oauth2_state'' = Some (Plain (fst (generateState b0)))
     \<and> r2 = Inr ()
     \<and> getItem b2 ''oauth2_state'' = Some (Plain (fst (generateState b1)))
     \<and> getItem b2 ''oauth2_code_verifier''
         = Some (Plain (codeVerifier (fst (generatePKCE P (snd (generateState b1))))))
     \<and> getItem b2 ''oauth2_provider'' = Some (Plain p2)
     \<and> (\<forall>params now.
           \<not> truthy (params ''error'') \<and> params ''state'' \<noteq> Some (fst (generateState b1)) \<longrightarrow>
             handleCallback oa2 params now b2 = (Inl CsrfMismatchError, b2))
     \<and> (\<forall>params now.
           \<not> truthy (params ''error'') \<and> params ''state'' = Some (fst (generateState b1)) \<longrightarrow>
             (\<exists>res b3. handleCallback oa2 params now b2 = (Inr res, b3)
                        \<and> cb_provider res = p2))"
proof -
  from OAuth2_authenticate_started [OF p1, of P b0] first
  have oa1: "oa1 = oa\<lparr>currentProvider := Some p1\<rparr>"
    and s1: "localStorage b1 = (localStorage b0)
          (''oauth2_state'' \<mapsto> Plain (fst (generateState b0)),
           ''oauth2_code_verifier'' \<mapsto>
              Plain (codeVerifier (fst (generatePKCE P (snd (generateState b0))))),
           ''oauth2_provider'' \<mapsto> Plain p1)"
    by auto
  have p2': "providers oa1 p2 = Some pr2" using p2 oa1 by simp
  from OAuth2_authenticate_started [OF p2', of P b1] second
  have r2: "r2 = Inr ()" and oa2: "oa2 = oa1\<lparr>currentProvider := Some p2\<rparr>"
    and s2: "localStorage b2 = (localStorage b1)
          (''oauth2_state'' \<mapsto> Plain (fst (generateState b1)),
           ''oauth2_code_verifier'' \<mapsto>
              Plain (codeVerifier (fst (generatePKCE P (snd (generateState b1))))),
           ''oauth2_provider'' \<mapsto> Plain p2)"
    by auto
  have st: "getStoredState b2 = Some (Plain (fst (generateState b1)))"
    and pv: "getItem b2 ''oauth2_provider'' = Some (Plain p2)"
    by (simp_all add: getStoredState_def getItem_def s2)
  have reject: "handleCallback oa2 params now b2 = (Inl CsrfMismatchError, b2)"
    if "\<not> truthy (params ''error'') \<and> params ''state'' \<noteq> Some (fst (generateState b1))"
    for params now
  proof -
    have "map_option Plain (params ''state'') \<noteq> getStoredState b2"
      using that st by (cases "params ''state''") auto
    then show ?thesis using that
      by (auto simp: handleCallback_def Let_def CsrfMismatchError_def split: option.splits)
  qed
  have accept: "\<exists>res b3. handleCallback oa2 params now b2 = (Inr res, b3) \<and> cb_provider res = p2"
    if "\<not> truthy (params ''error'') \<and> params ''state'' = Some (fst (generateState b1))"
    for params now
  proof -
    have "map_option Plain (params ''state'') = getStoredState b2" using that st by simp
    moreover have "providers oa2 p2 = Some pr2" using p2' oa2 by simp
    ultimately show ?thesis
      using callback_accepted [of params b2 p2 oa2 pr2 now] that pv by blast
  qed
  show ?thesis using r2 s1 s2 reject accept
    by (simp add: getItem_def)
qed

lemma state_first:
  "hex_of_bytes (map (\<lambda>i. of_nat (7 * i + 3)) [0..<32])
     = ''030a11181f262d343b424950575e656c737a81888f969da4abb2b9c0c7ced5dc''"
  by code_simp

lemma state_second:
  "hex_of_bytes (map (\<lambda>i. of_nat (7 * (i + 64) + 3)) [0..<32])
     = ''c3cad1d8dfe6edf4fb020910171e252c333a41484f565d646b727980878e959c''"
  by code_simp

lemma oauth0_google: "providers oauth0 ''google'' = Some google0"
  by (simp add: oauth0_def)

lemma first_flow_state:
  "fst (generateState browser0)
     = ''030a11181f262d343b424950575e656c737a81888f969da4abb2b9c0c7ced5dc''"
  using state_first by (simp add: generateState_eq browser0_def del: upt_Suc)

lemma second_flow_state:
  "fst (generateState (snd (snd first_flow)))
     = ''c3cad1d8dfe6edf4fb020910171e252c333a41484f565d646b727980878e959c''"
proof -
  from OAuth2_authenticate_started [OF oauth0_google, of platform0 browser0]
  have "entropy (snd (snd first_flow)) = (\<lambda>i. entropy browser0 (i + 64))"
    by (auto simp: first_flow_def)
  then show ?thesis using state_second by (simp add: generateState_eq browser0_def del: upt_Suc)
qed

theorem second_authorization_supersedes_witness:
  "providers oauth0 ''google'' = Some google0
   \<and> getItem (snd (snd first_flow)) ''oauth2_state''
        = Some (Plain ''030a11181f262d343b424950575e656c737a81888f969da4abb2b9c0c7ced5dc'')
   \<and> fst second_flow = Inr ()
   \<and> getItem (snd (snd second_flow)) ''oauth2_state''
        = Some (Plain ''c3cad1d8dfe6edf4fb020910171e252c333a41484f565d646b727980878e959c'')
   \<and> getItem (snd (snd second_flow)) ''oauth2_provider'' = Some (Plain ''google'')
   \<and> handleCallback (fst (snd second_flow)) params_first 5000 (snd (snd second_flow))
        = (Inl CsrfMismatchError, snd (snd second_flow))
   \<and> (\<exists>res b3. handleCallback (fst (snd second_flow)) params_second 5000 (snd (snd second_flow))
                   = (Inr res, b3) \<and> cb_provider res = ''google'')"
proof -
  have f: "OAuth2_authenticate oauth0 platform0 ''google'' browser0
             = (fst first_flow, fst (snd first_flow), snd (snd first_flow))"
    by (simp add: first_flow_def)
  have s: "OAuth2_authenticate (fst (snd first_flow)) platform0 ''google'' (snd (snd first_flow))
             = (fst second_flow, fst (snd second_flow), snd (snd second_flow))"
    by (simp add: second_flow_def)
  have e: "\<not> truthy (params_first ''error'')" "\<not> truthy (params_second ''error'')"
    by (simp_all add: params_first_def params_second_def truthy_def)
  have p: "params_first ''state''
             \<noteq> Some ''c3cad1d8dfe6edf4fb020910171e252c333a41484f565d646b727980878e959c''"
    "params_second ''state''
       = Some ''c3cad1d8dfe6edf4fb020910171e252c333a41484f565d646b727980878e959c''"
    by (simp_all add: params_first_def params_second_def)
  from second_authorization_supersedes [OF oauth0_google oauth0_google f s]
  show ?thesis unfolding first_flow_state second_flow_state
    using e p oauth0_google by blast
qed

section \<open>Sessions\<close>

lemma manager0_fields:
  "rateLimit_enabled manager0" "maxAttempts manager0 = Some 5"
  "windowMs manager0 = Some 900000" "sessionKey manager0 = ''dryouu_session''"
  "rateLimiter manager0 = Map.empty" "config manager0 = config0"
  by (simp_all add: manager0_def setupRateLimiting_def rateLimit_enabled_def config0_def
      or_int_def)

text \<open>
  C2, as the code has it. \<open>checkSession\<close> expires lazily: a stored session whose
  expiry is before the clock makes it return false and log out, which removes the
  record; a session whose expiry is the clock's value or later is valid and kept.
  \<open>getSession\<close> has no expiry check: it returns the stored session and removes
  nothing.
\<close>

theorem session_expiry:
  assumes "getItem b (sessionKey m) = Some (SessionJson d)"
  shows "(expiry d < now \<longrightarrow> checkSession m now b = (False, logout m b)
                              \<and> getItem (logout m b) (sessionKey m) = None)
       \<and> (now \<le> expiry d \<longrightarrow> checkSession m now b = (True, b))
       \<and> getSession m b = Some d"
  using assms
  by (simp add: checkSession_def getSession_def logout_def removeItem_def getItem_def)

theorem session_expiry_witness:
  "getItem browser_session (sessionKey manager0) = Some (SessionJson session0)
   \<and> expiry session0 < 1000
   \<and> checkSession manager0 1000 browser_session = (False, logout manager0 browser_session)
   \<and> getItem (logout manager0 browser_session) (sessionKey manager0) = None
   \<and> href (logout manager0 browser_session) = ''/index.html''
   \<and> checkSession manager0 999 browser_session = (True, browser_session)
   \<and> getSession manager0 browser_session = Some session0"
proof -
  have h: "getItem browser_session (sessionKey manager0) = Some (SessionJson session0)"
    by (simp add: getItem_def browser_session_def manager0_fields)
  have e: "expiry session0 = 999" by (simp add: session0_def)
  from session_expiry [OF h, of 1000] session_expiry [OF h, of 999] show ?thesis
    using h e by (simp add: logout_def)
qed

text \<open>
  The claim as stated fails: a session that expired at 999 is still returned by
  \<open>getSession\<close> at 1000, and \<open>checkSession\<close> still accepts it at 999, when its
  expiry equals the clock.
\<close>

theorem expired_session_still_read:
  "getItem browser_session (sessionKey manager0) = Some (SessionJson session0)
   \<and> expiry session0 \<le> 1000
   \<and> getSession manager0 browser_session = Some session0
   \<and> expiry session0 \<le> 999
   \<and> fst (checkSession manager0 999 browser_session) = True"
  by (simp add: getItem_def browser_session_def manager0_fields getSession_def
      checkSession_def session0_def)

section \<open>Rate limiting\<close>

lemma manager_stale_fields:
  "rateLimit_enabled manager_stale" "maxAttempts manager_stale = Some 5"
  "windowMs manager_stale = Some 900000"
  "rateLimiter manager_stale = [''ratelimit_local'' \<mapsto> \<lparr>count = 3, timestamp = 0\<rparr>]"
  "config manager_stale = config0"
  using manager0_fields by (simp_all add: manager_stale_def rateLimit_enabled_def)

lemma manager_failed_fields:
  "rateLimit_enabled (manager_failed n)" "maxAttempts (manager_failed n) = Some 5"
  "windowMs (manager_failed n) = Some 900000"
  "rateLimiter (manager_failed n) = [''ratelimit_local'' \<mapsto> \<lparr>count = n, timestamp = 1001\<rparr>]"
  "config (manager_failed n) = config0"
  using manager0_fields by (simp_all add: manager_failed_def rateLimit_enabled_def)

lemma incrementRateLimit_entry:
  "rateLimit_enabled m \<Longrightarrow>
   rateLimiter (incrementRateLimit m now method) (''ratelimit_'' @ method)
     = Some (case rateLimiter m (''ratelimit_'' @ method) of
               None \<Rightarrow> \<lparr>count = 1, timestamp = now\<rparr>
             | Some a \<Rightarrow> a\<lparr>count := count a + 1\<rparr>)"
  by (auto simp: incrementRateLimit_def get_attempts_def Let_def split: option.splits)

text \<open>
  C3, as the code has it. With rate limiting enabled, recording a failure creates the
  entry with count 1 and the clock as window start when there is none, and otherwise
  adds one to the count and keeps the window start, whether or not the window has
  expired. The reset is the work of the rate-limit check that opens an attempt: when
  it finds the window expired it removes the entry, and the failure recorded after it
  starts a fresh entry with count 1. With rate limiting disabled nothing is recorded.
\<close>

theorem record_failure:
  "(rateLimit_enabled m \<longrightarrow>
      rateLimiter (incrementRateLimit m now method) (''ratelimit_'' @ method)
        = Some (case rateLimiter m (''ratelimit_'' @ method) of
                  None \<Rightarrow> \<lparr>count = 1, timestamp = now\<rparr>
                | Some a \<Rightarrow> a\<lparr>count := count a + 1\<rparr>)
      \<and> (js_greater (t0 - timestamp (get_attempts m (''ratelimit_'' @ method) t0)) (windowMs m) \<longrightarrow>
           rateLimiter (incrementRateLimit (snd (checkRateLimit m t0 method)) now method)
             (''ratelimit_'' @ method) = Some \<lparr>count = 1, timestamp = now\<rparr>))
   \<and> (\<not> rateLimit_enabled m \<longrightarrow> incrementRateLimit m now method = m)"
  by (auto simp: incrementRateLimit_def checkRateLimit_def get_attempts_def Let_def
      rateLimit_enabled_def split: option.splits)

theorem record_failure_witness:
  "rateLimit_enabled manager_stale
   \<and> rateLimiter (incrementRateLimit manager0 1000 ''local'') ''ratelimit_local''
       = Some \<lparr>count = 1, timestamp = 1000\<rparr>
   \<and> rateLimiter (incrementRateLimit manager_stale 1000 ''local'') ''ratelimit_local''
       = Some \<lparr>count = 4, timestamp = 0\<rparr>
   \<and> js_greater (1000000 - timestamp (get_attempts manager_stale ''ratelimit_local'' 1000000))
        (windowMs manager_stale)
   \<and> rateLimiter
        (incrementRateLimit (snd (checkRateLimit manager_stale 1000000 ''local'')) 1000001
           ''local'') ''ratelimit_local''
       = Some \<lparr>count = 1, timestamp = 1000001\<rparr>"
proof -
  have g: "js_greater (1000000 - timestamp (get_attempts manager_stale ''ratelimit_local'' 1000000))
             (windowMs manager_stale)"
    by (simp add: get_attempts_def manager_stale_fields js_greater_def)
  from record_failure [of manager0 1000 "''local''"]
    record_failure [of manager_stale 1000 "''local''"]
    record_failure [of manager_stale 1000001 "''local''" 1000000]
  show ?thesis using g by (simp add: manager0_fields manager_stale_fields)
qed

text \<open>
  The claim as stated fails: a failure recorded at 1000000, when the window that
  started at 0 has expired, increments the stale counter from 3 to 4 and keeps the
  old window start. The same happens inside \<open>authenticate\<close> when the window
  expires between the check (at 900000, still within the window) and the failure
  (at 900001).
\<close>

theorem stale_counter_incremented:
  "rateLimit_enabled manager_stale
   \<and> rateLimiter manager_stale ''ratelimit_local'' = Some \<lparr>count = 3, timestamp = 0\<rparr>
   \<and> windowMs manager_stale = Some 900000
   \<and> rateLimiter (incrementRateLimit manager_stale 1000000 ''local'') ''ratelimit_local''
       = Some \<lparr>count = 4, timestamp = 0\<rparr>
   \<and> rateLimiter (incrementRateLimit manager_stale 1000000 ''local'') ''ratelimit_local''
       \<noteq> Some \<lparr>count = 1, timestamp = 1000000\<rparr>
   \<and> fst (authenticate manager_stale platform0 900000 900001 ''local''
              (Some wrong_credentials) browser0)
       = Inl (Error ''Invalid username or password'')
   \<and> rateLimiter
        (fst (snd (authenticate manager_stale platform0 900000 900001 ''local''
                     (Some wrong_credentials) browser0))) ''ratelimit_local''
       = Some \<lparr>count = 4, timestamp = 0\<rparr>"
  by (simp add: manager_stale_fields incrementRateLimit_def get_attempts_def Let_def
      authenticate_def checkRateLimit_def js_greater_def js_less_def dispatch_def
      authenticateLocal_def wrong_credentials_def config0_def truthy_def)

section \<open>authenticate and the failure counter\<close>

lemma dispatch_fields:
  assumes "dispatch m P method creds b = (r, m', b')"
  shows "rateLimiter m' = rateLimiter m \<and> config m' = config m
       \<and> maxAttempts m' = maxAttempts m \<and> windowMs m' = windowMs m
       \<and> sessionKey m' = sessionKey m"
  using assms
  by (auto simp: dispatch_def authenticateOAuth2_def
      split: if_splits option.splits prod.splits sum.splits)

lemma checkRateLimit_denied:
  "\<not> fst (checkRateLimit m now method) \<Longrightarrow> checkRateLimit m now method = (False, m)"
  by (auto simp: checkRateLimit_def Let_def split: if_splits)

lemma checkRateLimit_allowed:
  "fst (checkRateLimit m now method) \<Longrightarrow>
   checkRateLimit m now method = (True, snd (checkRateLimit m now method))"
  by (cases "checkRateLimit m now method") simp

lemma checkRateLimit_fields:
  "config (snd (checkRateLimit m now method)) = config m"
  "maxAttempts (snd (checkRateLimit m now method)) = maxAttempts m"
  "windowMs (snd (checkRateLimit m now method)) = windowMs m"
  by (simp_all add: checkRateLimit_def Let_def)


lemma wrong_local:
  "config m = config0 \<Longrightarrow>
   dispatch m P ''local'' (Some wrong_credentials) b
     = (Inl (Error ''Invalid username or password''), m, b)"
  by (simp add: dispatch_def authenticateLocal_def wrong_credentials_def config0_def truthy_def)



section \<open>Lockout after five failures\<close>

lemma authenticate_fields:
  assumes "authenticate m P now later method creds b = (r, m', b')"
  shows "config m' = config m \<and> maxAttempts m' = maxAttempts m \<and> windowMs m' = windowMs m"
proof (cases "fst (checkRateLimit m now method)")
  case False
  then have c: "checkRateLimit m now method = (False, m)" by (rule checkRateLimit_denied)
  show ?thesis using assms unfolding authenticate_def c by auto
next
  case True
  define m1 where "m1 = snd (checkRateLimit m now method)"
  have c: "checkRateLimit m now method = (True, m1)"
    unfolding m1_def by (rule checkRateLimit_allowed [OF True])
  obtain r2 m2 b2 where d: "dispatch m1 P method creds b = (r2, m2, b2)"
    by (cases "dispatch m1 P method creds b") auto
  have f: "config m2 = config m" "maxAttempts m2 = maxAttempts m" "windowMs m2 = windowMs m"
    using dispatch_fields [OF d] checkRateLimit_fields [of m now "method"]
    by (simp_all add: m1_def)
  show ?thesis
  proof (cases r2)
    case (Inl e)
    then have "m' = incrementRateLimit m2 later method"
      using assms c d by (simp add: authenticate_def)
    then show ?thesis using f by (simp add: incrementRateLimit_def Let_def)
  next
    case (Inr res)
    then have "m' = resetRateLimit m2 method"
      using assms c d by (simp add: authenticate_def Let_def)
    then show ?thesis using f by (simp add: resetRateLimit_def Let_def)
  qed
qed

lemma failed_attempt:
  assumes en: "rateLimit_enabled m" "maxAttempts m = Some 5" "windowMs m = Some 900000"
    and entry: "rateLimiter m (''ratelimit_'' @ method) = old"
    and ok: "case old of None \<Rightarrow> True
             | Some a \<Rightarrow> count a < 5 \<and> now - timestamp a \<le> 900000"
    and fail: "authenticate m P now later method creds b = (Inl e, m', b')"
  shows "rateLimiter m' (''ratelimit_'' @ method)
           = Some (case old of None \<Rightarrow> \<lparr>count = 1, timestamp = later\<rparr>
                   | Some a \<Rightarrow> a\<lparr>count := count a + 1\<rparr>)"
proof -
  have c: "checkRateLimit m now method = (True, m)"
    using en entry ok
    by (auto simp: checkRateLimit_def get_attempts_def Let_def js_greater_def js_less_def
        split: option.splits)
  obtain r2 m2 b2 where d: "dispatch m P method creds b = (r2, m2, b2)"
    by (cases "dispatch m P method creds b") auto
  have m': "m' = incrementRateLimit m2 later method"
    using fail c d by (auto simp: authenticate_def Let_def split: sum.splits)
  have f: "rateLimiter m2 = rateLimiter m" "rateLimit_enabled m2"
    using dispatch_fields [OF d] en(1) by (simp_all add: rateLimit_enabled_def)
  show ?thesis
    unfolding m' using incrementRateLimit_entry [OF f(2), of later "method"] f(1) entry
    by simp
qed

text \<open>
  C7. Rate limiting is enabled with \<open>maxAttempts = 5\<close> and \<open>windowMs = 900000\<close>, and
  a method has no entry. Five \<open>authenticate\<close> calls in a row fail, each starting
  within the window of the first failure, which was recorded at \<open>u1\<close>. Then the
  entry counts 5 with window start \<open>u1\<close>. As long as no more than \<open>windowMs\<close> has
  passed since \<open>u1\<close>, the check returns false and a further call, whatever its
  credentials, fails with \<open>RateLimitedError\<close>. Once more than \<open>windowMs\<close> has passed,
  the check returns true and removes the entry; the count is discarded: the next
  failure starts again at 1.
\<close>

theorem lockout_after_five_failures:
  assumes en: "rateLimit_enabled m0" "maxAttempts m0 = Some 5" "windowMs m0 = Some 900000"
    and fresh: "rateLimiter m0 (''ratelimit_'' @ method) = None"
    and a1: "authenticate m0 P t1 u1 method c1 b0 = (Inl e1, m1, b1)"
    and a2: "authenticate m1 P t2 u2 method c2 b1 = (Inl e2, m2, b2)"
    and a3: "authenticate m2 P t3 u3 method c3 b2 = (Inl e3, m3, b3)"
    and a4: "authenticate m3 P t4 u4 method c4 b3 = (Inl e4, m4, b4)"
    and a5: "authenticate m4 P t5 u5 method c5 b4 = (Inl e5, m5, b5)"
    and within: "t2 - u1 \<le> 900000" "t3 - u1 \<le> 900000" "t4 - u1 \<le> 900000"
      "t5 - u1 \<le> 900000"
  shows "rateLimiter m5 (''ratelimit_'' @ method) = Some \<lparr>count = 5, timestamp = u1\<rparr>
       \<and> (now - u1 \<le> 900000 \<longrightarrow>
            checkRateLimit m5 now method = (False, m5)
            \<and> authenticate m5 P now later method c b5 = (Inl RateLimitedError, m5, b5))
       \<and> (now - u1 > 900000 \<longrightarrow>
            checkRateLimit m5 now method
              = (True, m5\<lparr>rateLimiter := (rateLimiter m5)(''ratelimit_'' @ method := None)\<rparr>)
            \<and> rateLimiter
                 (incrementRateLimit (snd (checkRateLimit m5 now method)) later method)
                 (''ratelimit_'' @ method) = Some \<lparr>count = 1, timestamp = later\<rparr>)"
proof -
  note f1 = authenticate_fields [OF a1]
  note f2 = authenticate_fields [OF a2]
  note f3 = authenticate_fields [OF a3]
  note f4 = authenticate_fields [OF a4]
  note f5 = authenticate_fields [OF a5]
  have en1: "rateLimit_enabled m1" "maxAttempts m1 = Some 5" "windowMs m1 = Some 900000"
    using en f1 by (simp_all add: rateLimit_enabled_def)
  have en2: "rateLimit_enabled m2" "maxAttempts m2 = Some 5" "windowMs m2 = Some 900000"
    using en1 f2 by (simp_all add: rateLimit_enabled_def)
  have en3: "rateLimit_enabled m3" "maxAttempts m3 = Some 5" "windowMs m3 = Some 900000"
    using en2 f3 by (simp_all add: rateLimit_enabled_def)
  have en4: "rateLimit_enabled m4" "maxAttempts m4 = Some 5" "windowMs m4 = Some 900000"
    using en3 f4 by (simp_all add: rateLimit_enabled_def)
  have en5: "rateLimit_enabled m5" "maxAttempts m5 = Some 5" "windowMs m5 = Some 900000"
    using en4 f5 by (simp_all add: rateLimit_enabled_def)
  have r1: "rateLimiter m1 (''ratelimit_'' @ method) = Some \<lparr>count = 1, timestamp = u1\<rparr>"
    using failed_attempt [OF en fresh _ a1] by simp
  have r2: "rateLimiter m2 (''ratelimit_'' @ method) = Some \<lparr>count = 2, timestamp = u1\<rparr>"
    using failed_attempt [OF en1 r1 _ a2] within(1) by simp
  have r3: "rateLimiter m3 (''ratelimit_'' @ method) = Some \<lparr>count = 3, timestamp = u1\<rparr>"
    using failed_attempt [OF en2 r2 _ a3] within(2) by simp
  have r4: "rateLimiter m4 (''ratelimit_'' @ method) = Some \<lparr>count = 4, timestamp = u1\<rparr>"
    using failed_attempt [OF en3 r3 _ a4] within(3) by simp
  have r5: "rateLimiter m5 (''ratelimit_'' @ method) = Some \<lparr>count = 5, timestamp = u1\<rparr>"
    using failed_attempt [OF en4 r4 _ a5] within(4) by simp
  have denied: "checkRateLimit m5 now method = (False, m5)" if "now - u1 \<le> 900000"
    using that en5 r5
    by (simp add: checkRateLimit_def get_attempts_def Let_def js_greater_def js_less_def)
  have cleared: "checkRateLimit m5 now method
      = (True, m5\<lparr>rateLimiter := (rateLimiter m5)(''ratelimit_'' @ method := None)\<rparr>)"
    if "now - u1 > 900000"
    using that en5 r5
    by (simp add: checkRateLimit_def get_attempts_def Let_def js_greater_def js_less_def)
  have again: "rateLimiter
      (incrementRateLimit
         (m5\<lparr>rateLimiter := (rateLimiter m5)(''ratelimit_'' @ method := None)\<rparr>) later method)
      (''ratelimit_'' @ method) = Some \<lparr>count = 1, timestamp = later\<rparr>"
    using en5(1)
    by (simp add: incrementRateLimit_def get_attempts_def Let_def rateLimit_enabled_def)
  show ?thesis
    using r5 denied cleared again by (simp add: authenticate_def RateLimitedError_def)
qed

lemma first_failure:
  "authenticate manager0 platform0 1000 1001 ''local'' (Some wrong_credentials) browser0
     = (Inl (Error ''Invalid username or password''), manager_failed 1, browser0)"
  by (simp add: authenticate_def checkRateLimit_def manager0_fields get_attempts_def
      js_greater_def js_less_def wrong_local incrementRateLimit_def manager_failed_def Let_def)

lemma next_failure:
  "0 \<le> n \<Longrightarrow> n < 5 \<Longrightarrow> now - 1001 \<le> 900000 \<Longrightarrow>
   authenticate (manager_failed n) platform0 now later ''local'' (Some wrong_credentials)
       browser0
     = (Inl (Error ''Invalid username or password''), manager_failed (n + 1), browser0)"
  by (simp add: authenticate_def checkRateLimit_def manager_failed_fields get_attempts_def
      js_greater_def js_less_def wrong_local incrementRateLimit_def Let_def)
    (simp add: manager_failed_def)

theorem lockout_after_five_failures_witness:
  "rateLimit_enabled manager0 \<and> maxAttempts manager0 = Some 5
   \<and> windowMs manager0 = Some 900000
   \<and> rateLimiter manager0 ''ratelimit_local'' = None
   \<and> authenticate (manager_failed 4) platform0 5000 5001 ''local'' (Some wrong_credentials)
          browser0
        = (Inl (Error ''Invalid username or password''), manager_failed 5, browser0)
   \<and> rateLimiter (manager_failed 5) ''ratelimit_local'' = Some \<lparr>count = 5, timestamp = 1001\<rparr>
   \<and> checkRateLimit (manager_failed 5) 901001 ''local'' = (False, manager_failed 5)
   \<and> authenticate (manager_failed 5) platform0 901001 901002 ''local''
          (Some right_credentials) browser0
        = (Inl RateLimitedError, manager_failed 5, browser0)
   \<and> checkRateLimit (manager_failed 5) 901002 ''local''
        = (True, (manager_failed 5)
             \<lparr>rateLimiter := (rateLimiter (manager_failed 5))(''ratelimit_local'' := None)\<rparr>)
   \<and> rateLimiter
        (incrementRateLimit (snd (checkRateLimit (manager_failed 5) 901002 ''local'')) 901003
           ''local'') ''ratelimit_local''
        = Some \<lparr>count = 1, timestamp = 901003\<rparr>"
proof -
  note run = first_failure next_failure [of 1 2000 2001, simplified]
    next_failure [of 2 3000 3001, simplified] next_failure [of 3 4000 4001, simplified]
    next_failure [of 4 5000 5001, simplified]
  have fresh: "rateLimiter manager0 (''ratelimit_'' @ ''local'') = None"
    by (simp add: manager0_fields)
  note lock = lockout_after_five_failures [OF manager0_fields(1,2,3) fresh run, simplified]
  from lock [of 901001 901002 "Some right_credentials"] lock [of 901002 901003 None]
  show ?thesis using manager0_fields(1,2,3,5) run(5) by auto
qed

end
